theory Spec2Isabelle
  imports Complex_Main "HOL-Library.AList"
begin

section \<open>Python values, exceptions and the world the program runs in\<close>

text \<open>
  The program is \<^verbatim>\<open>src/inference.py\<close>. Its exceptions are values of \<open>error\<close>;
  a function that can raise returns \<open>error + 'a\<close>, and one that also has effects returns
  the world it leaves behind together with that result, so the effects made before a
  raise are kept. Python floats are modelled by \<open>real\<close>: rounding is not modelled.

  \<open>AssertionError\<close> is the failure of an \<^verbatim>\<open>assert\<close> statement of
  \<^verbatim>\<open>src/inference.py\<close> (lines 65 and 489). The \<^verbatim>\<open>assert\<close> statements of
  \<^verbatim>\<open>dust3r.viz.pts3d_to_trimesh\<close> raise Python's \<^verbatim>\<open>AssertionError\<close> as well,
  from another module: that failure is \<open>VizAssertionError\<close>, so that a statement can say
  which assertion has failed.
\<close>

datatype error =
    AssertionError
  | VizAssertionError
  | AttributeError
  | IndexError
  | ValueError
  | TypeError
  | RuntimeError
  | LinAlgError
  | OSError
  | CollaboratorError string

text \<open>A dynamically typed argument. \<open>PyObj a\<close> is a reference to the scene object at address \<open>a\<close>.\<close>

datatype pyval =
    PyNone
  | PyBool bool
  | PyInt int
  | PyFloat real
  | PyStr string
  | PyObj nat

type_synonym vec3 = "real \<times> real \<times> real"
type_synonym vec4 = "real \<times> real \<times> real \<times> real"
type_synonym mat4 = "vec4 \<times> vec4 \<times> vec4 \<times> vec4"

text \<open>
  An array of shape \<open>(H, W)\<close> or \<open>(H, W, k)\<close>: its two leading dimensions and its cells
  in row-major order (a cell is a number, a colour, a 3D point).
\<close>

datatype 'a ndarray = NdArray (shape: "nat \<times> nat") (cells: "'a list")

type_synonym image = "vec3 ndarray"
type_synonym pointmap = "vec3 ndarray"
type_synonym confmap = "real ndarray"
type_synonym mask = "bool ndarray"

text \<open>A two-dimensional array of numbers of shape \<open>(length rows, ncols)\<close>.\<close>

datatype array2 = Array2 (ncols: nat) (rows: "real list list")

datatype json = JNum real | JArr "json list" | JObj "(string \<times> json) list"

text \<open>
  The mesh that \<^verbatim>\<open>cat_meshes\<close> returns and the scene of the \<^verbatim>\<open>trimesh\<close> library:
  the geometries added to it and the transform applied to all of them.
\<close>

record mesh =
  vertices :: "vec3 list"
  faces :: "(nat \<times> nat \<times> nat) list"
  face_colors :: "vec3 list"

datatype geometry = PointCloud "vec3 list" "vec3 list" | Trimesh mesh

record tscene =
  geoms :: "geometry list"
  transform :: mat4

datatype content = NoContent | Json json | Ply "real list list" | Glb tscene

text \<open>
  Modelled from the spec: the scene class of \<^verbatim>\<open>dust3r.cloud_opt\<close> is not among the
  source files. A scene object holds the attributes the spec lists for SceneState
  (per-view images, point maps, confidence maps, camera-to-world poses, focal lengths,
  the scalar \<^verbatim>\<open>min_conf_thr\<close>), the depth maps the diagnostic renderer reads and
  the scene's confidence-transform function \<^verbatim>\<open>conf_trf\<close>.
\<close>

record scene =
  scene_imgs :: "image list"
  scene_pts3d :: "pointmap list"
  scene_im_conf :: "confmap list"
  scene_im_poses :: "mat4 list"
  scene_focals :: "real list"
  scene_min_conf_thr :: real
  scene_depthmaps :: "real ndarray list"
  scene_conf_trf :: "real \<Rightarrow> real"

text \<open>
  The calls made to the collaborators and the lines printed, in order.
\<close>

datatype mode = PointCloudOptimizer | PairViewer

datatype event =
    LoadImages "string list" int
  | MakePairs string
  | Inference nat
  | GlobalAligner mode
  | ComputeGlobalAlignment nat string int string real
  | Printed string

text \<open>
  The world: the store of scene objects (\<open>objs\<close> at the addresses below \<open>nxt\<close>), the
  files on disk, which paths can be created or opened for writing, and the trace of
  events.
\<close>

record world =
  objs :: "nat \<Rightarrow> scene"
  nxt :: nat
  files :: "string \<rightharpoonup> content"
  writable :: "string \<Rightarrow> bool"
  trace :: "event list"

definition alloc :: "world \<Rightarrow> scene \<Rightarrow> world \<times> nat" where
  "alloc w s = (w\<lparr>objs := (objs w)(nxt w := s), nxt := Suc (nxt w)\<rparr>, nxt w)"

definition emit :: "event \<Rightarrow> world \<Rightarrow> world" where
  "emit e w = w\<lparr>trace := trace w @ [e]\<rparr>"

subsection \<open>The file system calls\<close>

text \<open>\<^verbatim>\<open>os.path.join\<close> of two components.\<close>

definition path_join :: "string \<Rightarrow> string \<Rightarrow> string" where
  "path_join a b =
     (if b \<noteq> [] \<and> hd b = CHR ''/'' then b
      else if a = [] \<or> last a = CHR ''/'' then a @ b
      else a @ ''/'' @ b)"

definition isfile :: "world \<Rightarrow> string \<Rightarrow> bool" where
  "isfile w p = (files w p \<noteq> None)"

text \<open>\<^verbatim>\<open>os.mknod\<close>: an empty regular file, or an \<^verbatim>\<open>OSError\<close>.\<close>

definition mknod :: "world \<Rightarrow> string \<Rightarrow> world \<times> (error + unit)" where
  "mknod w p =
     (if writable w p then (w\<lparr>files := (files w)(p \<mapsto> NoContent)\<rparr>, Inr ())
      else (w, Inl OSError))"

text \<open>Opening a file for writing and writing \<open>c\<close> to it.\<close>

definition write_file :: "world \<Rightarrow> string \<Rightarrow> content \<Rightarrow> world \<times> (error + unit)" where
  "write_file w p c =
     (if writable w p then (w\<lparr>files := (files w)(p \<mapsto> c)\<rparr>, Inr ())
      else (w, Inl OSError))"

section \<open>Persistence\<close>

subsection \<open>\<^verbatim>\<open>save_camera_poses\<close>\<close>

text \<open>\<^verbatim>\<open>pose.tolist()\<close> of a \<open>4 \<times> 4\<close> tensor: a list of four lists of four numbers.\<close>

definition row_tolist :: "vec4 \<Rightarrow> json" where
  "row_tolist r = (case r of (a, b, c, d) \<Rightarrow> JArr [JNum a, JNum b, JNum c, JNum d])"

definition tolist :: "mat4 \<Rightarrow> json" where
  "tolist m = (case m of (r0, r1, r2, r3) \<Rightarrow>
     JArr [row_tolist r0, row_tolist r1, row_tolist r2, row_tolist r3])"

text \<open>
  The loop of lines 490 to 492. A Python dictionary keeps its keys in insertion order
  and an assignment to a key already present replaces its value in place, which is
  what \<open>AList.update\<close> does on an association list.
\<close>

fun fill_M_ext :: "(mat4 \<times> string) list \<Rightarrow> (string \<times> json) list \<Rightarrow> (string \<times> json) list" where
  "fill_M_ext [] M_ext = M_ext"
| "fill_M_ext ((pose, view_name) # rest) M_ext =
     fill_M_ext rest (AList.update view_name (tolist pose) M_ext)"

definition save_camera_poses ::
  "world \<Rightarrow> mat4 list \<Rightarrow> string list \<Rightarrow> string \<Rightarrow> world \<times> (error + unit)" where
  "save_camera_poses w poses file_names path =
     (if length file_names \<noteq> length poses then (w, Inl AssertionError)
      else
        let M_ext = fill_M_ext (zip poses file_names) [];
            file_path = path_join ''./estimation'' path;
            (w1, r1) = (if \<not> isfile w file_path then mknod w file_path else (w, Inr ()))
        in case r1 of
             Inl e \<Rightarrow> (w1, Inl e)
           | Inr _ \<Rightarrow> write_file w1 file_path (Json (JObj [(''extrinsics'', JObj M_ext)])))"

subsection \<open>\<^verbatim>\<open>save_point_to_ply\<close>\<close>

text \<open>\<^verbatim>\<open>points[:, :k]\<close>.\<close>

definition first_cols :: "nat \<Rightarrow> array2 \<Rightarrow> array2" where
  "first_cols k points = Array2 (min k (ncols points)) (map (take k) (rows points))"

text \<open>
  \<^verbatim>\<open>o3d.utility.Vector3dVector\<close> takes an array of shape \<open>(N, 3)\<close> only.
  \<^verbatim>\<open>o3d.io.write_point_cloud\<close> chooses the format by the extension of the file
  name, read in lower case: the text after the last dot, when no path separator follows
  that dot. It writes nothing when the extension is not one of its formats, when the
  point cloud has no points or when the file cannot be opened, and reports that by its
  return value, which the source ignores.
\<close>

definition to_lower :: "char \<Rightarrow> char" where
  "to_lower c = (if 65 \<le> (of_char c :: nat) \<and> (of_char c :: nat) \<le> 90
                 then char_of ((of_char c :: nat) + 32) else c)"

definition file_extension :: "string \<Rightarrow> string" where
  "file_extension p =
     (let ext = rev (takeWhile (\<lambda>c. c \<noteq> CHR ''.'') (rev p))
      in if CHR ''.'' \<in> set p \<and> CHR ''/'' \<notin> set ext \<and> CHR 0x5C \<notin> set ext
         then map to_lower ext else [])"

definition point_cloud_formats :: "string list" where
  "point_cloud_formats = [''xyz'', ''xyzn'', ''xyzrgb'', ''ply'', ''pcd'', ''pts'']"

definition Vector3dVector :: "array2 \<Rightarrow> error + real list list" where
  "Vector3dVector points = (if ncols points = 3 then Inr (rows points) else Inl RuntimeError)"

definition write_point_cloud :: "world \<Rightarrow> string \<Rightarrow> real list list \<Rightarrow> world" where
  "write_point_cloud w p pcd =
     (if file_extension p \<in> set point_cloud_formats \<and> pcd \<noteq> [] \<and> writable w p
      then w\<lparr>files := (files w)(p \<mapsto> Ply pcd)\<rparr>
      else w)"

definition save_point_to_ply :: "world \<Rightarrow> array2 \<Rightarrow> string \<Rightarrow> world \<times> (error + unit)" where
  "save_point_to_ply w points file_name =
     (let dim = ncols points;
          points = (if dim = 4 then first_cols 3 points else points)
      in case Vector3dVector points of
           Inl e \<Rightarrow> (w, Inl e)
         | Inr pcd \<Rightarrow> (write_point_cloud w (path_join ''./estimation/'' file_name) pcd, Inr ()))"

section \<open>Matrices\<close>

text \<open>
  The \<open>4 \<times> 4\<close> matrices of \<^verbatim>\<open>numpy\<close> that the export uses: \<^verbatim>\<open>np.eye(4)\<close>,
  the product \<^verbatim>\<open>@\<close> and \<^verbatim>\<open>np.linalg.inv\<close>, which raises \<^verbatim>\<open>LinAlgError\<close>
  on a singular matrix and is the adjugate divided by the determinant otherwise.
\<close>

definition eye4 :: mat4 where
  "eye4 = ((1, 0, 0, 0), (0, 1, 0, 0), (0, 0, 1, 0), (0, 0, 0, 1))"

definition dot4 :: "vec4 \<Rightarrow> vec4 \<Rightarrow> real" where
  "dot4 u v = (case u of (a, b, c, d) \<Rightarrow> case v of (x, y, z, t) \<Rightarrow> a * x + b * y + c * z + d * t)"

definition transpose4 :: "mat4 \<Rightarrow> mat4" where
  "transpose4 m = (case m of ((a00, a01, a02, a03), (a10, a11, a12, a13), (a20, a21, a22, a23), (a30, a31, a32, a33)) \<Rightarrow>
     ((a00, a10, a20, a30), (a01, a11, a21, a31), (a02, a12, a22, a32), (a03, a13, a23, a33)))"

definition row_times :: "vec4 \<Rightarrow> mat4 \<Rightarrow> vec4" where
  "row_times r bt = (case bt of (c0, c1, c2, c3) \<Rightarrow> (dot4 r c0, dot4 r c1, dot4 r c2, dot4 r c3))"

definition mat_mul :: "mat4 \<Rightarrow> mat4 \<Rightarrow> mat4" where
  "mat_mul a b = (case a of (r0, r1, r2, r3) \<Rightarrow>
     (row_times r0 (transpose4 b), row_times r1 (transpose4 b),
      row_times r2 (transpose4 b), row_times r3 (transpose4 b)))"

definition scale_row :: "real \<Rightarrow> vec4 \<Rightarrow> vec4" where
  "scale_row k r = (case r of (a, b, c, d) \<Rightarrow> (k * a, k * b, k * c, k * d))"

definition scale4 :: "real \<Rightarrow> mat4 \<Rightarrow> mat4" where
  "scale4 k m = (case m of (r0, r1, r2, r3) \<Rightarrow>
     (scale_row k r0, scale_row k r1, scale_row k r2, scale_row k r3))"

definition det4 :: "mat4 \<Rightarrow> real" where
  "det4 m = (case m of ((a00, a01, a02, a03), (a10, a11, a12, a13), (a20, a21, a22, a23), (a30, a31, a32, a33)) \<Rightarrow>
     (let s0 = a00 * a11 - a10 * a01;
          s1 = a00 * a12 - a10 * a02;
          s2 = a00 * a13 - a10 * a03;
          s3 = a01 * a12 - a11 * a02;
          s4 = a01 * a13 - a11 * a03;
          s5 = a02 * a13 - a12 * a03;
          c0 = a20 * a31 - a30 * a21;
          c1 = a20 * a32 - a30 * a22;
          c2 = a20 * a33 - a30 * a23;
          c3 = a21 * a32 - a31 * a22;
          c4 = a21 * a33 - a31 * a23;
          c5 = a22 * a33 - a32 * a23
      in s0 * c5 - s1 * c4 + s2 * c3 + s3 * c2 - s4 * c1 + s5 * c0))"

definition adj4 :: "mat4 \<Rightarrow> mat4" where
  "adj4 m = (case m of ((a00, a01, a02, a03), (a10, a11, a12, a13), (a20, a21, a22, a23), (a30, a31, a32, a33)) \<Rightarrow>
     (let s0 = a00 * a11 - a10 * a01;
          s1 = a00 * a12 - a10 * a02;
          s2 = a00 * a13 - a10 * a03;
          s3 = a01 * a12 - a11 * a02;
          s4 = a01 * a13 - a11 * a03;
          s5 = a02 * a13 - a12 * a03;
          c0 = a20 * a31 - a30 * a21;
          c1 = a20 * a32 - a30 * a22;
          c2 = a20 * a33 - a30 * a23;
          c3 = a21 * a32 - a31 * a22;
          c4 = a21 * a33 - a31 * a23;
          c5 = a22 * a33 - a32 * a23
      in ((a11 * c5 - a12 * c4 + a13 * c3, - a01 * c5 + a02 * c4 - a03 * c3, a31 * s5 - a32 * s4 + a33 * s3, - a21 * s5 + a22 * s4 - a23 * s3),
           (- a10 * c5 + a12 * c2 - a13 * c1, a00 * c5 - a02 * c2 + a03 * c1, - a30 * s5 + a32 * s2 - a33 * s1, a20 * s5 - a22 * s2 + a23 * s1),
           (a10 * c4 - a11 * c2 + a13 * c0, - a00 * c4 + a01 * c2 - a03 * c0, a30 * s4 - a31 * s2 + a33 * s0, - a20 * s4 + a21 * s2 - a23 * s0),
           (- a10 * c3 + a11 * c1 - a12 * c0, a00 * c3 - a01 * c1 + a02 * c0, - a30 * s3 + a31 * s1 - a32 * s0, a20 * s3 - a21 * s1 + a22 * s0))))"

definition linalg_inv :: "mat4 \<Rightarrow> error + mat4" where
  "linalg_inv m = (if det4 m = 0 then Inl LinAlgError else Inr (scale4 (1 / det4 m) (adj4 m)))"

text \<open>
  \<^verbatim>\<open>Rotation.from_euler("y", a).as_matrix()\<close>, \<^verbatim>\<open>np.deg2rad\<close> and the assignment
  \<^verbatim>\<open>rot[:3, :3] = r\<close>.
\<close>

type_synonym mat3 = "vec3 \<times> vec3 \<times> vec3"

definition deg2rad :: "real \<Rightarrow> real" where
  "deg2rad d = d * pi / 180"

definition from_euler_y :: "real \<Rightarrow> mat3" where
  "from_euler_y a = ((cos a, 0, sin a), (0, 1, 0), (- sin a, 0, cos a))"

definition set_rot3 :: "mat4 \<Rightarrow> mat3 \<Rightarrow> mat4" where
  "set_rot3 m r = (case m of ((a00, a01, a02, a03), (a10, a11, a12, a13), (a20, a21, a22, a23), (a30, a31, a32, a33)) \<Rightarrow>
     case r of ((b00, b01, b02), (b10, b11, b12), (b20, b21, b22)) \<Rightarrow>
       ((b00, b01, b02, a03), (b10, b11, b12, a13), (b20, b21, b22, a23), (a30, a31, a32, a33)))"

section \<open>Library calls of the export\<close>

text \<open>Truth value of a Python value in a condition.\<close>

definition truthy :: "pyval \<Rightarrow> bool" where
  "truthy v = (case v of
      PyNone \<Rightarrow> False
    | PyBool b \<Rightarrow> b
    | PyInt i \<Rightarrow> i \<noteq> 0
    | PyFloat r \<Rightarrow> r \<noteq> 0
    | PyStr s \<Rightarrow> s \<noteq> []
    | PyObj a \<Rightarrow> True)"

text \<open>\<^verbatim>\<open>xs[i]\<close> for an index that is not negative.\<close>

definition py_get :: "'a list \<Rightarrow> nat \<Rightarrow> error + 'a" where
  "py_get xs i = (if i < length xs then Inr (xs ! i) else Inl IndexError)"

text \<open>
  Boolean-mask indexing \<^verbatim>\<open>p[m]\<close>: the cells of \<open>p\<close> where \<open>m\<close> is true, in order;
  an \<^verbatim>\<open>IndexError\<close> when the shapes differ.
\<close>

definition bool_index :: "'a ndarray \<Rightarrow> mask \<Rightarrow> error + 'a list" where
  "bool_index p m =
     (if shape p = shape m then Inr (map fst (filter snd (zip (cells p) (cells m))))
      else Inl IndexError)"

text \<open>The comprehension \<^verbatim>\<open>[p[m] for p, m in zip(ps, mask)]\<close>; \<open>zip\<close> stops at the shorter list.\<close>

fun index_views :: "'a ndarray list \<Rightarrow> mask list \<Rightarrow> error + 'a list list" where
  "index_views (p # ps) (m # ms) =
     (case bool_index p m of
        Inl e \<Rightarrow> Inl e
      | Inr x \<Rightarrow> (case index_views ps ms of Inl e \<Rightarrow> Inl e | Inr xs \<Rightarrow> Inr (x # xs)))"
| "index_views ps ms = Inr []"

text \<open>\<^verbatim>\<open>np.concatenate\<close> needs at least one array.\<close>

definition concatenate :: "'a list list \<Rightarrow> error + 'a list" where
  "concatenate xs = (if xs = [] then Inl ValueError else Inr (concat xs))"

text \<open>\<^verbatim>\<open>trimesh.Scene()\<close>, \<^verbatim>\<open>scene.add_geometry\<close> and \<^verbatim>\<open>scene.apply_transform\<close>.\<close>

definition Scene :: tscene where
  "Scene = \<lparr>geoms = [], transform = eye4\<rparr>"

definition add_geometry :: "tscene \<Rightarrow> geometry \<Rightarrow> tscene" where
  "add_geometry sc g = sc\<lparr>geoms := geoms sc @ [g]\<rparr>"

definition apply_transform :: "tscene \<Rightarrow> mat4 \<Rightarrow> tscene" where
  "apply_transform sc t = sc\<lparr>transform := mat_mul t (transform sc)\<rparr>"

text \<open>
  \<^verbatim>\<open>scene.export(file_obj=outfile)\<close>. The library encodes the scene before it opens
  the file. Its glTF writer takes the minimum and the maximum of the vertices of a point
  cloud, which raises \<^verbatim>\<open>ValueError\<close> when the point cloud has no points: then
  nothing is written. A mesh without faces is written.
\<close>

definition no_points :: "geometry \<Rightarrow> bool" where
  "no_points g = (case g of PointCloud pts col \<Rightarrow> pts = [] | Trimesh m \<Rightarrow> False)"

definition export_glb :: "tscene \<Rightarrow> error + content" where
  "export_glb sc = (if list_ex no_points (geoms sc) then Inl ValueError else Inr (Glb sc))"

definition scene_export :: "world \<Rightarrow> tscene \<Rightarrow> string \<Rightarrow> world \<times> (error + unit)" where
  "scene_export w sc file_obj =
     (case export_glb sc of
        Inl e \<Rightarrow> (w, Inl e)
      | Inr data \<Rightarrow> write_file w file_obj data)"

text \<open>Decimal digits of a number, for \<^verbatim>\<open>str\<close> of an integer.\<close>

function str_nat :: "nat \<Rightarrow> string" where
  "str_nat n =
     (if n < 10 then [char_of (48 + n)] else str_nat (n div 10) @ [char_of (48 + n mod 10)])"
  by pat_completeness auto
termination
  by (relation "measure (\<lambda>n. n)") auto

definition str_int :: "int \<Rightarrow> string" where
  "str_int i = (if i < 0 then ''-'' @ str_nat (nat (- i)) else str_nat (nat i))"

text \<open>
  Modelled from the spec: \<^verbatim>\<open>load_images\<close> of \<^verbatim>\<open>dust3r.utils.image\<close> is not
  among the source files. A view is the View of the spec (index, image, size); the
  index is the \<^verbatim>\<open>idx\<close> entry that line 185 assigns.
\<close>

record view =
  view_idx :: int
  view_img :: image
  view_size :: "nat \<times> nat"

datatype model = Model string

datatype picture = Gray "real ndarray" | Rgba "vec4 ndarray"

text \<open>
  What the source takes from modules that are not among the source files
  (\<^verbatim>\<open>dust3r.viz\<close>, \<^verbatim>\<open>dust3r.cloud_opt\<close>, \<^verbatim>\<open>dust3r.inference\<close>,
  \<^verbatim>\<open>dust3r.image_pairs\<close>, \<^verbatim>\<open>dust3r.utils.image\<close>, \<^verbatim>\<open>matplotlib\<close>), each as
  a parameter: nothing is assumed of what these functions compute. The collaborators of
  the reconstruction can fail, and their errors are passed on, as the spec says; the
  other functions are total, but for the assertions that \<^verbatim>\<open>pts3d_to_trimesh\<close>
  makes on the shapes of its arguments, which are checked where it is called. The
  methods of the scene class are functions of the object's attributes.
\<close>

record 'o env =
  OPENGL :: mat4
  pts3d_to_trimesh :: "image \<Rightarrow> pointmap \<Rightarrow> mask \<Rightarrow> mesh"
  cat_meshes :: "mesh list \<Rightarrow> mesh"
  scene_clean_pointcloud :: "scene \<Rightarrow> scene"
  scene_mask_sky :: "scene \<Rightarrow> scene"
  scene_get_masks :: "scene \<Rightarrow> mask list"
  str_float :: "real \<Rightarrow> string"
  str_obj :: "nat \<Rightarrow> string"
  load_images :: "string list \<Rightarrow> int \<Rightarrow> error + view list"
  make_pairs :: "view list \<Rightarrow> string \<Rightarrow> error + (view \<times> view) list"
  inference :: "(view \<times> view) list \<Rightarrow> model \<Rightarrow> string \<Rightarrow> nat \<Rightarrow> error + 'o"
  global_aligner :: "'o \<Rightarrow> string \<Rightarrow> mode \<Rightarrow> error + scene"
  compute_global_alignment :: "scene \<Rightarrow> string \<Rightarrow> int \<Rightarrow> string \<Rightarrow> real \<Rightarrow> error + scene \<times> real"
  cmap :: "real \<Rightarrow> vec4"
  rgb :: "picture \<Rightarrow> image"

text \<open>\<^verbatim>\<open>str(v)\<close>, which an f-string applies to a value it formats.\<close>

definition py_str :: "'o env \<Rightarrow> pyval \<Rightarrow> string" where
  "py_str env v = (case v of
      PyNone \<Rightarrow> ''None''
    | PyBool b \<Rightarrow> (if b then ''True'' else ''False'')
    | PyInt i \<Rightarrow> str_int i
    | PyFloat r \<Rightarrow> str_float env r
    | PyStr s \<Rightarrow> s
    | PyObj a \<Rightarrow> str_obj env a)"

text \<open>
  \<^verbatim>\<open>torch.tensor(v)\<close> of a scalar: a number gives a tensor holding it (a boolean
  counts as 0 or 1), anything else is refused. An integer becomes a 64-bit tensor, so
  one outside the range of \<^verbatim>\<open>int64\<close> is refused too, with a \<^verbatim>\<open>RuntimeError\<close>.
\<close>

definition torch_tensor :: "pyval \<Rightarrow> error + real" where
  "torch_tensor v = (case v of
      PyNone \<Rightarrow> Inl RuntimeError
    | PyBool b \<Rightarrow> Inr (if b then 1 else 0)
    | PyInt i \<Rightarrow> (if - (2 ^ 63) \<le> i \<and> i < 2 ^ 63 then Inr (of_int i) else Inl RuntimeError)
    | PyFloat r \<Rightarrow> Inr r
    | PyStr s \<Rightarrow> Inl TypeError
    | PyObj a \<Rightarrow> Inl RuntimeError)"

section \<open>The export\<close>

subsection \<open>\<^verbatim>\<open>_convert_scene_output_to_glb\<close>\<close>

text \<open>Lines 75 to 77: the point cloud of all masked points and their colours.\<close>

definition pointcloud_geometry :: "image list \<Rightarrow> pointmap list \<Rightarrow> mask list \<Rightarrow> error + geometry" where
  "pointcloud_geometry imgs pts3d mask' =
     (case index_views pts3d mask' of
        Inl e \<Rightarrow> Inl e
      | Inr ps \<Rightarrow>
     (case concatenate ps of
        Inl e \<Rightarrow> Inl e
      | Inr pts \<Rightarrow>
     (case index_views imgs mask' of
        Inl e \<Rightarrow> Inl e
      | Inr cs \<Rightarrow>
     (case concatenate cs of
        Inl e \<Rightarrow> Inl e
      | Inr col \<Rightarrow> Inr (PointCloud pts col)))))"

text \<open>
  The call \<^verbatim>\<open>pts3d_to_trimesh(img, pts3d, valid)\<close>. The function is in
  \<^verbatim>\<open>dust3r.viz\<close>, which is not among the source files: what it computes is the
  parameter \<open>pts3d_to_trimesh\<close>, and its \<^verbatim>\<open>assert\<close> statements on the shapes,
  \<^verbatim>\<open>img.shape == pts3d.shape\<close> and \<^verbatim>\<open>valid.shape == (H, W)\<close> with
  \<^verbatim>\<open>(H, W)\<close> the shape of the image, are checked here.
\<close>

definition call_pts3d_to_trimesh :: "'o env \<Rightarrow> image \<Rightarrow> pointmap \<Rightarrow> mask \<Rightarrow> error + mesh" where
  "call_pts3d_to_trimesh env img p valid =
     (if shape img \<noteq> shape p then Inl VizAssertionError
      else if shape valid \<noteq> shape img then Inl VizAssertionError
      else Inr (pts3d_to_trimesh env img p valid))"

text \<open>Lines 80 to 82: the loop over \<^verbatim>\<open>range(len(imgs))\<close>, one mesh per view.\<close>

fun meshes_loop ::
  "'o env \<Rightarrow> image list \<Rightarrow> pointmap list \<Rightarrow> mask list \<Rightarrow> nat list \<Rightarrow> mesh list \<Rightarrow> error + mesh list" where
  "meshes_loop env imgs pts3d mask' [] meshes = Inr meshes"
| "meshes_loop env imgs pts3d mask' (i # rest) meshes =
     (case py_get imgs i of
        Inl e \<Rightarrow> Inl e
      | Inr img \<Rightarrow>
     (case py_get pts3d i of
        Inl e \<Rightarrow> Inl e
      | Inr p \<Rightarrow>
     (case py_get mask' i of
        Inl e \<Rightarrow> Inl e
      | Inr m \<Rightarrow>
     (case call_pts3d_to_trimesh env img p m of
        Inl e \<Rightarrow> Inl e
      | Inr mesh \<Rightarrow> meshes_loop env imgs pts3d mask' rest (meshes @ [mesh])))))"

definition mesh_geometry :: "'o env \<Rightarrow> image list \<Rightarrow> pointmap list \<Rightarrow> mask list \<Rightarrow> error + geometry" where
  "mesh_geometry env imgs pts3d mask' =
     (case meshes_loop env imgs pts3d mask' [0..<length imgs] [] of
        Inl e \<Rightarrow> Inl e
      | Inr meshes \<Rightarrow> Inr (Trimesh (cat_meshes env meshes)))"

text \<open>
  The converter. The chained comparison of the assertion is the conjunction of its
  four links. \<^verbatim>\<open>to_numpy\<close> changes no value. The camera loop of lines 87 to 100 is
  commented out in the source, so \<open>focals\<close>, \<open>cam_size\<close>, \<open>cam_color\<close> and
  \<open>transparent_cams\<close> are not read after the assertion.
\<close>

definition convert_scene_output_to_glb ::
  "'o env \<Rightarrow> world \<Rightarrow> string \<Rightarrow> pyval \<Rightarrow> image list \<Rightarrow> pointmap list \<Rightarrow> mask list \<Rightarrow>
   real list \<Rightarrow> mat4 list \<Rightarrow> pyval \<Rightarrow> pyval \<Rightarrow> pyval \<Rightarrow> pyval \<Rightarrow> world \<times> (error + pyval)" where
  "convert_scene_output_to_glb env w outdir scene_name imgs pts3d mask' focals cams2world
       cam_size cam_color as_pointcloud transparent_cams =
     (if \<not> (length pts3d = length mask' \<and> length mask' \<le> length imgs
             \<and> length imgs \<le> length cams2world \<and> length cams2world = length focals)
      then (w, Inl AssertionError)
      else
        (case (if truthy as_pointcloud then pointcloud_geometry imgs pts3d mask'
               else mesh_geometry env imgs pts3d mask') of
           Inl e \<Rightarrow> (w, Inl e)
         | Inr g \<Rightarrow>
             let scene = add_geometry Scene g;
                 rot = eye4;
                 type = (if truthy as_pointcloud then ''pointcloud'' else ''mesh'');
                 rot = set_rot3 rot (from_euler_y (deg2rad 180))
             in (case py_get cams2world 0 of
                   Inl e \<Rightarrow> (w, Inl e)
                 | Inr c0 \<Rightarrow>
                (case linalg_inv (mat_mul (mat_mul c0 (OPENGL env)) rot) of
                   Inl e \<Rightarrow> (w, Inl e)
                 | Inr t \<Rightarrow>
                     let scene = apply_transform scene t;
                         outfile = path_join outdir (py_str env scene_name @ ''_'' @ type @ ''.glb'');
                         w = emit (Printed (''(exporting 3D scene to '' @ outfile @ '' )'')) w
                     in (case scene_export w scene outfile of
                           (w, Inl e) \<Rightarrow> (w, Inl e)
                         | (w, Inr u) \<Rightarrow> (w, Inr (PyStr outfile)))))))"

subsection \<open>\<^verbatim>\<open>get_3D_model_from_scene\<close>\<close>

text \<open>
  Modelled from the spec: the methods \<^verbatim>\<open>clean_pointcloud\<close> and \<^verbatim>\<open>mask_sky\<close> of
  the scene class are not among the source files. The spec says that the post-processing
  works on a working copy: a call leaves its receiver as it was, allocates a new object
  with the attributes the method computes, and returns a reference to it. A method call
  or an attribute read on a value that is not a scene object raises
  \<^verbatim>\<open>AttributeError\<close>.
\<close>

definition call_clean_pointcloud :: "'o env \<Rightarrow> world \<Rightarrow> pyval \<Rightarrow> world \<times> (error + pyval)" where
  "call_clean_pointcloud env w scene = (case scene of
      PyObj a \<Rightarrow> (case alloc w (scene_clean_pointcloud env (objs w a)) of (w, b) \<Rightarrow> (w, Inr (PyObj b)))
    | _ \<Rightarrow> (w, Inl AttributeError))"

definition call_mask_sky :: "'o env \<Rightarrow> world \<Rightarrow> pyval \<Rightarrow> world \<times> (error + pyval)" where
  "call_mask_sky env w scene = (case scene of
      PyObj a \<Rightarrow> (case alloc w (scene_mask_sky env (objs w a)) of (w, b) \<Rightarrow> (w, Inr (PyObj b)))
    | _ \<Rightarrow> (w, Inl AttributeError))"

text \<open>The assignment \<^verbatim>\<open>scene.min_conf_thr = v\<close> on the object at address \<open>a\<close>.\<close>

definition set_min_conf_thr :: "world \<Rightarrow> nat \<Rightarrow> real \<Rightarrow> world" where
  "set_min_conf_thr w a v = w\<lparr>objs := (objs w)(a := (objs w a)\<lparr>scene_min_conf_thr := v\<rparr>)\<rparr>"

text \<open>
  Lines 130 to 145: the post-processing, the values read from the scene, the new
  threshold and the masks. The result is the reference the local variable
  \<^verbatim>\<open>scene\<close> ends with and the five arguments of the converter; \<open>Inr None\<close> stands
  for the early \<^verbatim>\<open>return None\<close>.
\<close>

definition scene_outputs ::
  "'o env \<Rightarrow> world \<Rightarrow> pyval \<Rightarrow> pyval \<Rightarrow> pyval \<Rightarrow> pyval \<Rightarrow>
   world \<times> (error + (nat \<times> image list \<times> pointmap list \<times> mask list \<times> real list \<times> mat4 list) option)" where
  "scene_outputs env w scene min_conf_thr mask_sky clean_depth =
     (if scene = PyNone then (w, Inr None)
      else
        (case (if truthy clean_depth then call_clean_pointcloud env w scene else (w, Inr scene)) of
           (w, Inl e) \<Rightarrow> (w, Inl e)
         | (w, Inr scene) \<Rightarrow>
        (case (if truthy mask_sky then call_mask_sky env w scene else (w, Inr scene)) of
           (w, Inl e) \<Rightarrow> (w, Inl e)
         | (w, Inr scene) \<Rightarrow>
        (case scene of
           PyObj a \<Rightarrow>
             let rgbimg = scene_imgs (objs w a);
                 focals = scene_focals (objs w a);
                 cams2world = scene_im_poses (objs w a);
                 pts3d = scene_pts3d (objs w a)
             in (case torch_tensor min_conf_thr of
                   Inl e \<Rightarrow> (w, Inl e)
                 | Inr t \<Rightarrow>
                     let w = set_min_conf_thr w a (scene_conf_trf (objs w a) t);
                         msk = scene_get_masks env (objs w a)
                     in (w, Inr (Some (a, rgbimg, pts3d, msk, focals, cams2world))))
         | _ \<Rightarrow> (w, Inl AttributeError)))))"

definition get_3D_model_from_scene ::
  "'o env \<Rightarrow> world \<Rightarrow> string \<Rightarrow> pyval \<Rightarrow> pyval \<Rightarrow> pyval \<Rightarrow> pyval \<Rightarrow> pyval \<Rightarrow> pyval \<Rightarrow>
   pyval \<Rightarrow> pyval \<Rightarrow> world \<times> (error + pyval)" where
  "get_3D_model_from_scene env w outdir scene_name scene min_conf_thr as_pointcloud mask_sky
       clean_depth transparent_cams cam_size =
     (case scene_outputs env w scene min_conf_thr mask_sky clean_depth of
        (w, Inl e) \<Rightarrow> (w, Inl e)
      | (w, Inr None) \<Rightarrow> (w, Inr PyNone)
      | (w, Inr (Some (a, rgbimg, pts3d, msk, focals, cams2world))) \<Rightarrow>
          convert_scene_output_to_glb env w outdir scene_name rgbimg pts3d msk focals cams2world
            cam_size PyNone as_pointcloud transparent_cams)"

section \<open>The reconstruction\<close>

subsection \<open>The diagnostic images\<close>

text \<open>
  \<^verbatim>\<open>d.max()\<close> of an array and \<^verbatim>\<open>max\<close> of a list: both raise
  \<^verbatim>\<open>ValueError\<close> when there is nothing to take the maximum of.
\<close>

definition py_max :: "real list \<Rightarrow> error + real" where
  "py_max xs = (case xs of [] \<Rightarrow> Inl ValueError | x # rest \<Rightarrow> Inr (fold max rest x))"

fun array_maxes :: "real ndarray list \<Rightarrow> error + real list" where
  "array_maxes [] = Inr []"
| "array_maxes (d # ds) =
     (case py_max (cells d) of
        Inl e \<Rightarrow> Inl e
      | Inr m \<Rightarrow> (case array_maxes ds of Inl e \<Rightarrow> Inl e | Inr ms \<Rightarrow> Inr (m # ms)))"

definition array_map :: "('a \<Rightarrow> 'b) \<Rightarrow> 'a ndarray \<Rightarrow> 'b ndarray" where
  "array_map f d = NdArray (shape d) (map f (cells d))"

text \<open>\<^verbatim>\<open>d / m\<close>, every cell divided by the number \<open>m\<close>.\<close>

definition array_div :: "real ndarray \<Rightarrow> real \<Rightarrow> real ndarray" where
  "array_div d m = array_map (\<lambda>x. x / m) d"

text \<open>Lines 232 to 236: three images per view.\<close>

fun gallery_loop ::
  "'o env \<Rightarrow> image list \<Rightarrow> real ndarray list \<Rightarrow> vec4 ndarray list \<Rightarrow> nat list \<Rightarrow> image list \<Rightarrow>
   error + image list" where
  "gallery_loop env rgbimg depths confs [] imgs = Inr imgs"
| "gallery_loop env rgbimg depths confs (i # rest) imgs =
     (case py_get rgbimg i of
        Inl e \<Rightarrow> Inl e
      | Inr c \<Rightarrow>
     (case py_get depths i of
        Inl e \<Rightarrow> Inl e
      | Inr d \<Rightarrow>
     (case py_get confs i of
        Inl e \<Rightarrow> Inl e
      | Inr f \<Rightarrow> gallery_loop env rgbimg depths confs rest (imgs @ [c, rgb env (Gray d), rgb env (Rgba f)]))))"

text \<open>
  Lines 223 to 236 of \<^verbatim>\<open>get_reconstructed_scene\<close>, on the attributes of the scene:
  the depth maps divided by \<open>depths_max\<close>, the confidence maps divided by
  \<open>confs_max\<close> and coloured, and the gallery.
\<close>

definition normalized_depths :: "scene \<Rightarrow> error + real ndarray list" where
  "normalized_depths s =
     (let depths = scene_depthmaps s
      in case array_maxes depths of
           Inl e \<Rightarrow> Inl e
         | Inr ms \<Rightarrow>
        (case py_max ms of
           Inl e \<Rightarrow> Inl e
         | Inr depths_max \<Rightarrow> Inr (map (\<lambda>d. array_div d depths_max) depths)))"

definition coloured_confs :: "'o env \<Rightarrow> scene \<Rightarrow> error + vec4 ndarray list" where
  "coloured_confs env s =
     (let confs = scene_im_conf s
      in case array_maxes confs of
           Inl e \<Rightarrow> Inl e
         | Inr ms \<Rightarrow>
        (case py_max ms of
           Inl e \<Rightarrow> Inl e
         | Inr confs_max \<Rightarrow> Inr (map (\<lambda>d. array_map (cmap env) (array_div d confs_max)) confs)))"

definition diagnostic_imgs :: "'o env \<Rightarrow> scene \<Rightarrow> error + image list" where
  "diagnostic_imgs env s =
     (let rgbimg = scene_imgs s
      in case normalized_depths s of
           Inl e \<Rightarrow> Inl e
         | Inr depths \<Rightarrow>
        (case coloured_confs env s of
           Inl e \<Rightarrow> Inl e
         | Inr confs \<Rightarrow> gallery_loop env rgbimg depths confs [0..<length rgbimg] []))"

subsection \<open>\<^verbatim>\<open>get_reconstructed_scene\<close>\<close>

definition batch_size :: nat where
  "batch_size = 1"

text \<open>
  \<^verbatim>\<open>scene.compute_global_alignment\<close> works on the object in place and returns
  the loss.
\<close>

definition call_compute_global_alignment ::
  "'o env \<Rightarrow> world \<Rightarrow> nat \<Rightarrow> string \<Rightarrow> int \<Rightarrow> string \<Rightarrow> real \<Rightarrow> world \<times> (error + real)" where
  "call_compute_global_alignment env w a init niter schedule lr =
     (let w = emit (ComputeGlobalAlignment a init niter schedule lr) w
      in case compute_global_alignment env (objs w a) init niter schedule lr of
           Inl e \<Rightarrow> (w, Inl e)
         | Inr (s, loss) \<Rightarrow> (w\<lparr>objs := (objs w)(a := s)\<rparr>, Inr loss))"

text \<open>
  The arguments of the call of \<^verbatim>\<open>get_3D_model_from_scene\<close> at lines 209 to 218 are
  positional, eight of them, and are bound to its first eight parameters in the order
  written; the ninth, \<^verbatim>\<open>cam_size\<close>, takes its default.
\<close>

definition get_reconstructed_scene ::
  "'o env \<Rightarrow> world \<Rightarrow> string \<Rightarrow> model \<Rightarrow> string \<Rightarrow> int \<Rightarrow> string list \<Rightarrow> string \<Rightarrow> int \<Rightarrow>
   pyval \<Rightarrow> pyval \<Rightarrow> pyval \<Rightarrow> pyval \<Rightarrow> pyval \<Rightarrow> pyval \<Rightarrow> string \<Rightarrow> int \<Rightarrow> int \<Rightarrow>
   world \<times> (error + pyval \<times> pyval \<times> image list)" where
  "get_reconstructed_scene env w outdir model device image_size filelist schedule niter
       min_conf_thr as_pointcloud mask_sky clean_depth transparent_cams cam_size
       scenegraph_type winsize refid =
     (let w = emit (LoadImages filelist image_size) w in
      (case load_images env filelist image_size of
         Inl e \<Rightarrow> (w, Inl e)
       | Inr imgs \<Rightarrow>
      (let imgs = (if length imgs = 1 then [imgs ! 0, (imgs ! 0)\<lparr>view_idx := 1\<rparr>] else imgs);
           scenegraph_type =
             (if scenegraph_type = ''swin'' then scenegraph_type @ ''-'' @ str_int winsize
              else if scenegraph_type = ''oneref'' then scenegraph_type @ ''-'' @ str_int refid
              else scenegraph_type);
           w = emit (MakePairs scenegraph_type) w in
      (case make_pairs env imgs scenegraph_type of
         Inl e \<Rightarrow> (w, Inl e)
       | Inr pairs \<Rightarrow>
      (let w = emit (Inference batch_size) w in
      (case inference env pairs model device batch_size of
         Inl e \<Rightarrow> (w, Inl e)
       | Inr output \<Rightarrow>
      (let mode = (if length imgs > 2 then PointCloudOptimizer else PairViewer);
           w = emit (GlobalAligner mode) w in
      (case global_aligner env output device mode of
         Inl e \<Rightarrow> (w, Inl e)
       | Inr s \<Rightarrow>
      (case alloc w s of (w, scene) \<Rightarrow>
      (let lr = 0.01 in
      (case (if mode = PointCloudOptimizer
             then call_compute_global_alignment env w scene ''mst'' niter schedule lr
             else (w, Inr 0)) of
         (w, Inl e) \<Rightarrow> (w, Inl e)
       | (w, Inr loss) \<Rightarrow>
      (case get_3D_model_from_scene env w outdir (PyObj scene) min_conf_thr as_pointcloud
              mask_sky clean_depth transparent_cams cam_size (PyFloat 0.05) of
         (w, Inl e) \<Rightarrow> (w, Inl e)
       | (w, Inr outfile) \<Rightarrow>
      (case diagnostic_imgs env (objs w scene) of
         Inl e \<Rightarrow> (w, Inl e)
       | Inr imgs \<Rightarrow> (w, Inr (PyObj scene, outfile, imgs)))))))))))))))"

section \<open>Notions used in the statements\<close>

text \<open>
  The attributes of the object the export works on: those of the scene it was given,
  after the post-processing that the flags ask for.
\<close>

definition working_scene :: "'o env \<Rightarrow> scene \<Rightarrow> pyval \<Rightarrow> pyval \<Rightarrow> scene" where
  "working_scene env s mask_sky clean_depth =
     (let s1 = (if truthy clean_depth then scene_clean_pointcloud env s else s)
      in if truthy mask_sky then scene_mask_sky env s1 else s1)"

text \<open>
  The address of that object, which the local variable \<^verbatim>\<open>scene\<close> refers to after
  the post-processing: the address \<open>a\<close> of the scene given when no flag is set, and
  otherwise that of the copy allocated last.
\<close>

definition working_address :: "world \<Rightarrow> nat \<Rightarrow> pyval \<Rightarrow> pyval \<Rightarrow> nat" where
  "working_address w a mask_sky clean_depth =
     (if truthy mask_sky then (if truthy clean_depth then Suc (nxt w) else nxt w)
      else if truthy clean_depth then nxt w
      else a)"

text \<open>The masks of an export with threshold \<open>t\<close>.\<close>

definition export_masks :: "'o env \<Rightarrow> scene \<Rightarrow> real \<Rightarrow> pyval \<Rightarrow> pyval \<Rightarrow> mask list" where
  "export_masks env s t mask_sky clean_depth =
     (let s1 = working_scene env s mask_sky clean_depth
      in scene_get_masks env (s1\<lparr>scene_min_conf_thr := scene_conf_trf s1 t\<rparr>))"

text \<open>The rotation by 180 degrees about the vertical axis, as a \<open>4 \<times> 4\<close> matrix.\<close>

definition rot180 :: mat4 where
  "rot180 = ((- 1, 0, 0, 0), (0, 1, 0, 0), (0, 0, - 1, 0), (0, 0, 0, 1))"

text \<open>The path of the file that the converter writes.\<close>

definition glb_name :: "'o env \<Rightarrow> string \<Rightarrow> pyval \<Rightarrow> pyval \<Rightarrow> string" where
  "glb_name env outdir scene_name as_pointcloud =
     path_join outdir (py_str env scene_name @ ''_''
       @ (if truthy as_pointcloud then ''pointcloud'' else ''mesh'') @ ''.glb'')"

text \<open>The number of points that a list of masks keeps.\<close>

definition masked_count :: "mask list \<Rightarrow> nat" where
  "masked_count ms = sum_list (map (\<lambda>m. length (filter id (cells m))) ms)"

text \<open>An event that is a printed line.\<close>

definition is_printed :: "event \<Rightarrow> bool" where
  "is_printed e = (case e of Printed s \<Rightarrow> True | _ \<Rightarrow> False)"

text \<open>The calls to the collaborators that a trace records: all its events but the printed lines.\<close>

definition calls :: "event list \<Rightarrow> event list" where
  "calls tr = filter (\<lambda>e. \<not> is_printed e) tr"

text \<open>The maximum over all cells of all arrays of a list.\<close>

definition global_max :: "real ndarray list \<Rightarrow> real" where
  "global_max ds = Max (set (concat (map cells ds)))"

section \<open>Example values\<close>

definition ex_img :: image where
  "ex_img = NdArray (1, 2) [(1, 0, 0), (0, 1, 0)]"

definition ex_pts :: pointmap where
  "ex_pts = NdArray (1, 2) [(0, 0, 1), (1, 0, 2)]"

definition ex_conf :: confmap where
  "ex_conf = NdArray (1, 2) [5, 1]"

definition ex_scene :: scene where
  "ex_scene = \<lparr>scene_imgs = [ex_img, ex_img], scene_pts3d = [ex_pts, ex_pts],
      scene_im_conf = [ex_conf, ex_conf], scene_im_poses = [eye4, eye4],
      scene_focals = [1, 1], scene_min_conf_thr = 3,
      scene_depthmaps = [NdArray (1, 2) [1, 2], NdArray (1, 2) [4, 3]],
      scene_conf_trf = (\<lambda>x. x)\<rparr>"

definition ex_mask :: mask where
  "ex_mask = NdArray (1, 2) [True, False]"

definition ex_view :: "int \<Rightarrow> view" where
  "ex_view i = \<lparr>view_idx = i, view_img = ex_img, view_size = (2, 1)\<rparr>"

text \<open>
  An environment in which a mask keeps the cells whose confidence reaches the
  threshold, the post-processing copies the scene as it is and no collaborator fails.
\<close>

definition ex_env :: "unit env" where
  "ex_env = \<lparr>OPENGL = ((1, 0, 0, 0), (0, - 1, 0, 0), (0, 0, - 1, 0), (0, 0, 0, 1)),
      pts3d_to_trimesh = (\<lambda>img p m. \<lparr>vertices = cells p, faces = [], face_colors = []\<rparr>),
      cat_meshes = (\<lambda>ms. \<lparr>vertices = concat (map vertices ms), faces = concat (map faces ms),
                          face_colors = concat (map face_colors ms)\<rparr>),
      scene_clean_pointcloud = (\<lambda>s. s),
      scene_mask_sky = (\<lambda>s. s),
      scene_get_masks = (\<lambda>s. map (array_map (\<lambda>c. scene_min_conf_thr s \<le> c)) (scene_im_conf s)),
      str_float = (\<lambda>r. ''3.0''),
      str_obj = (\<lambda>a. ''scene''),
      load_images = (\<lambda>fl size. Inr (map (\<lambda>i. ex_view (int i)) [0..<length fl])),
      make_pairs = (\<lambda>vs g. Inr (List.product vs vs)),
      inference = (\<lambda>ps m d b. Inr ()),
      global_aligner = (\<lambda>out d m. Inr ex_scene),
      compute_global_alignment = (\<lambda>s init niter schedule lr. Inr (s, 0)),
      cmap = (\<lambda>x. (x, 0, 1 - x, 1)),
      rgb = (\<lambda>p. ex_img)\<rparr>"

text \<open>A world that holds one scene, at address 0, and in which every path can be written.\<close>

definition ex_world :: world where
  "ex_world = \<lparr>objs = (\<lambda>a. ex_scene), nxt = 1, files = Map.empty, writable = (\<lambda>p. True),
      trace = []\<rparr>"

section \<open>Persistence: the theorems\<close>

lemma update_fresh: "k \<notin> fst ` set al \<Longrightarrow> AList.update k v al = al @ [(k, v)]"
  by (induction al) auto

lemma fill_M_ext_map_of:
  "map_of (fill_M_ext xs M) = map_of (rev (map (\<lambda>(p, n). (n, tolist p)) xs) @ M)"
proof (induction xs arbitrary: M)
  case Nil
  then show ?case by simp
next
  case (Cons x xs)
  obtain p n where x: "x = (p, n)" by (cases x)
  show ?case
    by (simp add: x Cons.IH update_conv' map_add_def fun_eq_iff split: option.splits)
qed

lemma fill_M_ext_distinct:
  "distinct (map fst M @ map snd xs) \<Longrightarrow>
   fill_M_ext xs M = M @ map (\<lambda>(p, n). (n, tolist p)) xs"
proof (induction xs arbitrary: M)
  case Nil
  then show ?case by simp
next
  case (Cons x xs)
  obtain p n where x: "x = (p, n)" by (cases x)
  from Cons.prems have fresh: "n \<notin> fst ` set M" by (auto simp: x)
  from Cons.prems have "distinct (map fst (M @ [(n, tolist p)]) @ map snd xs)" by (auto simp: x)
  from Cons.IH[OF this] show ?case by (simp add: x update_fresh[OF fresh])
qed

lemma zip_swap_tolist:
  "length poses = length names \<Longrightarrow>
   map (\<lambda>(p, n). (n, tolist p)) (zip poses names) = zip names (map tolist poses)"
  by (induction poses names rule: list_induct2) auto

text \<open>
  Claim C7. \<^verbatim>\<open>save_camera_poses\<close> fails on its assertion, and writes nothing,
  whenever the number of poses differs from the number of names. When the two numbers
  agree (and the file can be written) it writes a JSON object with the single key
  \<^verbatim>\<open>extrinsics\<close>, whose value maps every view name to the nested list of its pose:
  a name that occurs twice keeps the pose given last, and when the names are distinct the
  entries are exactly the names paired with their poses, in order.
\<close>

theorem save_camera_poses_count_mismatch:
  "(length poses \<noteq> length file_names \<longrightarrow>
      save_camera_poses w poses file_names path = (w, Inl AssertionError))
   \<and> (length poses = length file_names \<and> writable w (path_join ''./estimation'' path) \<longrightarrow>
        save_camera_poses w poses file_names path =
          (w\<lparr>files := (files w)(path_join ''./estimation'' path \<mapsto>
              Json (JObj [(''extrinsics'', JObj (fill_M_ext (zip poses file_names) []))]))\<rparr>, Inr ())
        \<and> map_of (fill_M_ext (zip poses file_names) []) =
            map_of (rev (zip file_names (map tolist poses)))
        \<and> (distinct file_names \<longrightarrow>
             fill_M_ext (zip poses file_names) [] = zip file_names (map tolist poses)))"
proof (intro conjI impI)
  assume "length poses \<noteq> length file_names"
  then show "save_camera_poses w poses file_names path = (w, Inl AssertionError)"
    by (auto simp: save_camera_poses_def)
next
  assume h: "length poses = length file_names \<and> writable w (path_join ''./estimation'' path)"
  then show "save_camera_poses w poses file_names path =
          (w\<lparr>files := (files w)(path_join ''./estimation'' path \<mapsto>
              Json (JObj [(''extrinsics'', JObj (fill_M_ext (zip poses file_names) []))]))\<rparr>, Inr ())"
    by (simp add: save_camera_poses_def Let_def mknod_def write_file_def isfile_def)
  from h show "map_of (fill_M_ext (zip poses file_names) []) =
            map_of (rev (zip file_names (map tolist poses)))"
    by (simp add: fill_M_ext_map_of zip_swap_tolist)
  assume "distinct file_names"
  with h show "fill_M_ext (zip poses file_names) [] = zip file_names (map tolist poses)"
    using fill_M_ext_distinct[of "[]" "zip poses file_names"] by (simp add: zip_swap_tolist)
qed

text \<open>
  Three poses and two names fail; two poses and two distinct names write the object.
\<close>

theorem save_camera_poses_count_mismatch_witness:
  "length [eye4, eye4, eye4] \<noteq> length [''a'', ''b'']
   \<and> save_camera_poses ex_world [eye4, eye4, eye4] [''a'', ''b''] ''box_poses.json''
       = (ex_world, Inl AssertionError)
   \<and> length [eye4, rot180] = length [''a'', ''b'']
   \<and> writable ex_world (path_join ''./estimation'' ''box_poses.json'')
   \<and> distinct [''a'', ''b'']
   \<and> save_camera_poses ex_world [eye4, rot180] [''a'', ''b''] ''box_poses.json''
       = (ex_world\<lparr>files := (files ex_world)(''./estimation/box_poses.json'' \<mapsto>
            Json (JObj [(''extrinsics'',
              JObj [(''a'', tolist eye4), (''b'', tolist rot180)])]))\<rparr>, Inr ())"
proof -
  have w: "writable ex_world (path_join ''./estimation'' ''box_poses.json'')"
    by (simp add: ex_world_def)
  have p: "path_join ''./estimation'' ''box_poses.json'' = ''./estimation/box_poses.json''"
    by (simp add: path_join_def)
  show ?thesis
    using save_camera_poses_count_mismatch
            [of "[eye4, eye4, eye4]" "[''a'', ''b'']" ex_world "''box_poses.json''"]
          save_camera_poses_count_mismatch
            [of "[eye4, rot180]" "[''a'', ''b'']" ex_world "''box_poses.json''"]
          w
    by (simp add: p)
qed

text \<open>
  Claim C8. For every array of four columns, \<^verbatim>\<open>save_point_to_ply\<close> does what it
  does on the array of the first three columns alone: it writes the rows cut to their
  first three entries.
\<close>

theorem save_point_to_ply_drops_fourth_column:
  "save_point_to_ply w (Array2 4 rs) file_name =
     save_point_to_ply w (first_cols 3 (Array2 4 rs)) file_name
   \<and> save_point_to_ply w (Array2 4 rs) file_name =
       (write_point_cloud w (path_join ''./estimation/'' file_name) (map (take 3) rs), Inr ())"
  by (simp add: save_point_to_ply_def first_cols_def Vector3dVector_def Let_def)

section \<open>Matrices: the theorems\<close>

lemmas mat_defs = mat_mul_def scale4_def eye4_def row_times_def transpose4_def dot4_def scale_row_def

lemma mat4_cases:
  obtains a00 a01 a02 a03 a10 a11 a12 a13 a20 a21 a22 a23 a30 a31 a32 a33 :: real
  where "m = ((a00, a01, a02, a03), (a10, a11, a12, a13), (a20, a21, a22, a23), (a30, a31, a32, a33))"
  by (metis prod_cases4)

lemma adj4_left: "mat_mul (adj4 m) m = scale4 (det4 m) eye4"
proof (cases m rule: mat4_cases)
  case 1
  show ?thesis
    unfolding 1 mat_defs adj4_def det4_def Let_def prod.case prod.inject
    by (intro conjI; (simp add: algebra_simps)?)
qed

lemma adj4_right: "mat_mul m (adj4 m) = scale4 (det4 m) eye4"
proof (cases m rule: mat4_cases)
  case 1
  show ?thesis
    unfolding 1 mat_defs adj4_def det4_def Let_def prod.case prod.inject
    by (intro conjI; (simp add: algebra_simps)?)
qed

lemma mat_mul_scale_left: "mat_mul (scale4 k a) b = scale4 k (mat_mul a b)"
proof (cases a rule: mat4_cases)
  case a: 1
  show ?thesis
  proof (cases b rule: mat4_cases)
    case b: 1
    show ?thesis
      unfolding a b mat_defs prod.case prod.inject
      by (intro conjI; (simp add: algebra_simps)?)
  qed
qed

lemma mat_mul_scale_right: "mat_mul a (scale4 k b) = scale4 k (mat_mul a b)"
proof (cases a rule: mat4_cases)
  case a: 1
  show ?thesis
  proof (cases b rule: mat4_cases)
    case b: 1
    show ?thesis
      unfolding a b mat_defs prod.case prod.inject
      by (intro conjI; (simp add: algebra_simps)?)
  qed
qed

lemma scale4_inverse: "d \<noteq> 0 \<Longrightarrow> scale4 (1 / d) (scale4 d eye4) = eye4"
  by (simp add: mat_defs)

lemma mat_mul_eye_right: "mat_mul m eye4 = m"
  by (cases m rule: mat4_cases) (simp add: mat_defs)

lemma mat_mul_assoc: "mat_mul (mat_mul a b) c = mat_mul a (mat_mul b c)"
proof (cases a rule: mat4_cases)
  case a: 1
  show ?thesis
  proof (cases b rule: mat4_cases)
    case b: 1
    show ?thesis
    proof (cases c rule: mat4_cases)
      case c: 1
      show ?thesis
        unfolding a b c mat_defs prod.case prod.inject
        by (intro conjI; (simp add: algebra_simps)?)
    qed
  qed
qed

lemma linalg_inv_inverse:
  assumes "linalg_inv m = Inr t"
  shows "mat_mul t m = eye4 \<and> mat_mul m t = eye4"
proof -
  from assms have d: "det4 m \<noteq> 0" and t: "t = scale4 (1 / det4 m) (adj4 m)"
    by (auto simp: linalg_inv_def split: if_splits)
  show ?thesis
    by (simp add: t mat_mul_scale_left mat_mul_scale_right adj4_left adj4_right
                  scale4_inverse[OF d])
qed

lemma rot_eq: "set_rot3 eye4 (from_euler_y (deg2rad 180)) = rot180"
  by (simp add: set_rot3_def eye4_def from_euler_y_def deg2rad_def rot180_def)

section \<open>The export: the theorems\<close>

subsection \<open>What each step leaves unchanged\<close>

lemma scene_export_cases:
  "scene_export w sc p =
     (if list_ex no_points (geoms sc) then (w, Inl ValueError)
      else if writable w p then (w\<lparr>files := (files w)(p \<mapsto> Glb sc)\<rparr>, Inr ())
      else (w, Inl OSError))"
  by (simp add: scene_export_def export_glb_def write_file_def)

lemma convert_frame:
  "convert_scene_output_to_glb env w outdir scene_name imgs pts3d mask' focals cams2world
       cam_size cam_color as_pointcloud transparent_cams = (w', r) \<Longrightarrow>
   objs w' = objs w \<and> nxt w' = nxt w \<and> writable w' = writable w"
  by (auto simp: convert_scene_output_to_glb_def Let_def emit_def scene_export_cases
           split: sum.splits if_splits prod.splits)

lemma scene_outputs_frame:
  "scene_outputs env w scene min_conf_thr mask_sky clean_depth = (w', r) \<Longrightarrow>
   files w' = files w \<and> writable w' = writable w \<and> trace w' = trace w \<and> nxt w \<le> nxt w'"
  by (auto simp: scene_outputs_def call_clean_pointcloud_def call_mask_sky_def alloc_def
                 set_min_conf_thr_def Let_def
           split: sum.splits if_splits prod.splits pyval.splits)

lemma scene_outputs_result:
  assumes "torch_tensor min_conf_thr = Inr t"
  shows "\<exists>w' b. scene_outputs env w (PyObj a) min_conf_thr mask_sky clean_depth =
           (w', Inr (Some (b,
              scene_imgs (working_scene env (objs w a) mask_sky clean_depth),
              scene_pts3d (working_scene env (objs w a) mask_sky clean_depth),
              export_masks env (objs w a) t mask_sky clean_depth,
              scene_focals (working_scene env (objs w a) mask_sky clean_depth),
              scene_im_poses (working_scene env (objs w a) mask_sky clean_depth))))"
  using assms
  by (auto simp: scene_outputs_def call_clean_pointcloud_def call_mask_sky_def alloc_def
                 set_min_conf_thr_def Let_def working_scene_def export_masks_def
           split: sum.splits if_splits prod.splits pyval.splits)

lemma scene_outputs_store:
  assumes "scene_outputs env w (PyObj a) min_conf_thr mask_sky clean_depth = (w', r)"
      and "a < nxt w"
  shows "(\<forall>b. b < nxt w \<and> b \<noteq> a \<longrightarrow> objs w' b = objs w b)
       \<and> (truthy clean_depth \<or> truthy mask_sky \<longrightarrow> objs w' a = objs w a)
       \<and> (\<not> truthy clean_depth \<and> \<not> truthy mask_sky \<longrightarrow>
            (case torch_tensor min_conf_thr of
               Inl e \<Rightarrow> objs w' a = objs w a
             | Inr t \<Rightarrow> objs w' a = (objs w a)\<lparr>scene_min_conf_thr := scene_conf_trf (objs w a) t\<rparr>))"
  using assms
  by (auto simp: scene_outputs_def call_clean_pointcloud_def call_mask_sky_def alloc_def
                 set_min_conf_thr_def Let_def
           split: sum.splits if_splits prod.splits pyval.splits)

lemma scene_outputs_copy:
  assumes "scene_outputs env w (PyObj a) min_conf_thr mask_sky clean_depth = (w', r)"
  shows "(truthy clean_depth \<or> truthy mask_sky \<longrightarrow>
            nxt w \<le> working_address w a mask_sky clean_depth
          \<and> working_address w a mask_sky clean_depth < nxt w')
       \<and> (case torch_tensor min_conf_thr of
             Inl e \<Rightarrow> True
           | Inr t \<Rightarrow>
               objs w' (working_address w a mask_sky clean_depth)
               = (working_scene env (objs w a) mask_sky clean_depth)
                   \<lparr>scene_min_conf_thr :=
                      scene_conf_trf (working_scene env (objs w a) mask_sky clean_depth) t\<rparr>)"
  using assms
  by (auto simp: scene_outputs_def call_clean_pointcloud_def call_mask_sky_def alloc_def
                 set_min_conf_thr_def Let_def working_scene_def working_address_def
           split: sum.splits if_splits prod.splits pyval.splits)

subsection \<open>The converter\<close>

lemma index_views_error: "index_views ps ms = Inl e \<Longrightarrow> e = IndexError"
  by (induction ps ms rule: index_views.induct)
     (auto simp: bool_index_def split: sum.splits if_splits)

lemma meshes_loop_error:
  "meshes_loop env imgs pts3d mask' is acc = Inl e \<Longrightarrow> e = IndexError \<or> e = VizAssertionError"
  by (induction "is" arbitrary: acc)
     (auto simp: py_get_def call_pts3d_to_trimesh_def split: sum.splits if_splits)

lemma geometry_error:
  "(if truthy as_pointcloud then pointcloud_geometry imgs pts3d mask'
    else mesh_geometry env imgs pts3d mask') = Inl e \<Longrightarrow>
   e = IndexError \<or> e = ValueError \<or> e = VizAssertionError"
  by (auto simp: pointcloud_geometry_def mesh_geometry_def concatenate_def
           dest: index_views_error meshes_loop_error split: sum.splits if_splits)

lemma convert_success:
  assumes "convert_scene_output_to_glb env w outdir scene_name imgs pts3d mask' focals cams2world
             cam_size cam_color as_pointcloud transparent_cams = (w', Inr v)"
  shows "\<exists>g c0 rest t.
           v = PyStr (glb_name env outdir scene_name as_pointcloud)
         \<and> cams2world = c0 # rest
         \<and> linalg_inv (mat_mul (mat_mul c0 (OPENGL env)) rot180) = Inr t
         \<and> (if truthy as_pointcloud then pointcloud_geometry imgs pts3d mask'
             else mesh_geometry env imgs pts3d mask') = Inr g
         \<and> \<not> no_points g
         \<and> files w' = (files w)(glb_name env outdir scene_name as_pointcloud \<mapsto>
                          Glb \<lparr>geoms = [g], transform = t\<rparr>)"
  using assms
  by (cases cams2world)
     (auto simp: convert_scene_output_to_glb_def Let_def emit_def scene_export_cases glb_name_def
                 rot_eq py_get_def Scene_def add_geometry_def apply_transform_def
                 mat_mul_eye_right
           split: sum.splits if_splits prod.splits)

lemma convert_total:
  assumes "length pts3d = length mask'" "length mask' \<le> length imgs"
          "length imgs \<le> length cams2world" "length cams2world = length focals"
      and "(if truthy as_pointcloud then pointcloud_geometry imgs pts3d mask'
             else mesh_geometry env imgs pts3d mask') = Inr g"
      and "cams2world = c0 # rest"
      and "linalg_inv (mat_mul (mat_mul c0 (OPENGL env)) rot180) = Inr t"
      and "writable w (glb_name env outdir scene_name as_pointcloud)"
      and "\<not> no_points g"
  shows "convert_scene_output_to_glb env w outdir scene_name imgs pts3d mask' focals
             cams2world cam_size cam_color as_pointcloud transparent_cams
           = (w\<lparr>files := (files w)(glb_name env outdir scene_name as_pointcloud \<mapsto>
                          Glb \<lparr>geoms = [g], transform = t\<rparr>),
                 trace := trace w @ [Printed (''(exporting 3D scene to ''
                            @ glb_name env outdir scene_name as_pointcloud @ '' )'')]\<rparr>,
              Inr (PyStr (glb_name env outdir scene_name as_pointcloud)))"
  using assms
  by (auto simp: convert_scene_output_to_glb_def Let_def emit_def scene_export_cases glb_name_def
                 rot_eq py_get_def Scene_def add_geometry_def apply_transform_def
                 mat_mul_eye_right
           split: sum.splits if_splits prod.splits)

lemma convert_no_points:
  assumes "length pts3d = length mask'" "length mask' \<le> length imgs"
          "length imgs \<le> length cams2world" "length cams2world = length focals"
      and "(if truthy as_pointcloud then pointcloud_geometry imgs pts3d mask'
             else mesh_geometry env imgs pts3d mask') = Inr g"
      and "cams2world = c0 # rest"
      and "linalg_inv (mat_mul (mat_mul c0 (OPENGL env)) rot180) = Inr t"
      and "no_points g"
  shows "convert_scene_output_to_glb env w outdir scene_name imgs pts3d mask' focals
             cams2world cam_size cam_color as_pointcloud transparent_cams
           = (w\<lparr>trace := trace w @ [Printed (''(exporting 3D scene to ''
                            @ glb_name env outdir scene_name as_pointcloud @ '' )'')]\<rparr>,
              Inl ValueError)"
  using assms
  by (auto simp: convert_scene_output_to_glb_def Let_def emit_def scene_export_cases glb_name_def
                 rot_eq py_get_def Scene_def add_geometry_def apply_transform_def
                 mat_mul_eye_right
           split: sum.splits if_splits prod.splits)

lemma convert_assert:
  "\<not> (length pts3d = length mask' \<and> length mask' \<le> length imgs
       \<and> length imgs \<le> length cams2world \<and> length cams2world = length focals) \<Longrightarrow>
   convert_scene_output_to_glb env w outdir scene_name imgs pts3d mask' focals cams2world
       cam_size cam_color as_pointcloud transparent_cams = (w, Inl AssertionError)"
  by (simp add: convert_scene_output_to_glb_def)

lemma convert_no_assert:
  assumes "length pts3d = length mask' \<and> length mask' \<le> length imgs
       \<and> length imgs \<le> length cams2world \<and> length cams2world = length focals"
  shows "snd (convert_scene_output_to_glb env w outdir scene_name imgs pts3d mask' focals cams2world
       cam_size cam_color as_pointcloud transparent_cams) \<noteq> Inl AssertionError"
proof -
  have g: "(if truthy as_pointcloud then pointcloud_geometry imgs pts3d mask'
    else mesh_geometry env imgs pts3d mask') \<noteq> Inl AssertionError"
    using geometry_error[of as_pointcloud imgs pts3d mask' env AssertionError] by auto
  show ?thesis
    using assms g
    by (auto simp: convert_scene_output_to_glb_def Let_def emit_def scene_export_cases
                 py_get_def linalg_inv_def
           split: sum.splits if_splits prod.splits)
qed

text \<open>
  Claim C10, amended. The assertion of line 65 checks the chain
  \<^verbatim>\<open>len(pts3d) == len(mask) <= len(imgs) <= len(cams2world) == len(focals)\<close> and
  nothing else: inputs that break the chain end in the \<^verbatim>\<open>AssertionError\<close> of that
  line with nothing written or printed, and inputs that satisfy it never end in that
  error. Five sequences of one length, as the invariant of SceneState says, satisfy the
  chain, so on them the assertion of line 65 cannot fire. The converter can still fail
  on inputs that pass the assertion, with another error.
\<close>
theorem converter_length_assertion:
  "(\<not> (length pts3d = length mask' \<and> length mask' \<le> length imgs
        \<and> length imgs \<le> length cams2world \<and> length cams2world = length focals) \<longrightarrow>
      convert_scene_output_to_glb env w outdir scene_name imgs pts3d mask' focals cams2world
        cam_size cam_color as_pointcloud transparent_cams = (w, Inl AssertionError))
   \<and> (length pts3d = length mask' \<and> length mask' \<le> length imgs
        \<and> length imgs \<le> length cams2world \<and> length cams2world = length focals \<longrightarrow>
      snd (convert_scene_output_to_glb env w outdir scene_name imgs pts3d mask' focals cams2world
        cam_size cam_color as_pointcloud transparent_cams) \<noteq> Inl AssertionError)
   \<and> (length pts3d = length imgs \<and> length mask' = length imgs
        \<and> length cams2world = length imgs \<and> length focals = length imgs \<longrightarrow>
      snd (convert_scene_output_to_glb env w outdir scene_name imgs pts3d mask' focals cams2world
        cam_size cam_color as_pointcloud transparent_cams) \<noteq> Inl AssertionError)"
  using convert_assert[of pts3d mask' imgs cams2world focals env w outdir scene_name
                          cam_size cam_color as_pointcloud transparent_cams]
        convert_no_assert[of pts3d mask' imgs cams2world focals env w outdir scene_name
                          cam_size cam_color as_pointcloud transparent_cams]
  by auto

subsection \<open>The geometry of empty masks and of one mesh per view\<close>
lemma index_views_empty:
  assumes "list_all2 (\<lambda>p m. shape p = shape m) ps ms"
      and "\<forall>m \<in> set ms. \<forall>b \<in> set (cells m). \<not> b"
  shows "index_views ps ms = Inr (replicate (length ms) [])"
  using assms
proof (induction ps ms rule: list_all2_induct)
  case Nil
  then show ?case by simp
next
  case (Cons p ps m ms)
  have "filter snd (zip (cells p) (cells m)) = []"
    using Cons.prems by (auto simp: filter_empty_conv dest: set_zip_rightD)
  moreover have "index_views ps ms = Inr (replicate (length ms) [])"
    using Cons.IH Cons.prems by auto
  ultimately show ?case using Cons.hyps by (simp add: bool_index_def)
qed

lemma concatenate_empties: "0 < n \<Longrightarrow> concatenate (replicate n []) = Inr []"
  by (cases n) (auto simp: concatenate_def)

lemma pointcloud_geometry_empty:
  assumes "list_all2 (\<lambda>p m. shape p = shape m) pts3d ms"
      and "list_all2 (\<lambda>p m. shape p = shape m) imgs ms"
      and "\<forall>m \<in> set ms. \<forall>b \<in> set (cells m). \<not> b"
      and "ms \<noteq> []"
  shows "pointcloud_geometry imgs pts3d ms = Inr (PointCloud [] [])"
  using assms
  by (simp add: pointcloud_geometry_def index_views_empty concatenate_empties)

lemma meshes_loop_total:
  "\<forall>i \<in> set is. i < length imgs \<and> i < length pts3d \<and> i < length ms
       \<and> shape (imgs ! i) = shape (pts3d ! i) \<and> shape (ms ! i) = shape (imgs ! i) \<Longrightarrow>
   meshes_loop env imgs pts3d ms is acc =
     Inr (acc @ map (\<lambda>i. pts3d_to_trimesh env (imgs ! i) (pts3d ! i) (ms ! i)) is)"
  by (induction "is" arbitrary: acc) (auto simp: py_get_def call_pts3d_to_trimesh_def)

lemma mesh_geometry_total:
  assumes "list_all2 (\<lambda>p m. shape p = shape m) pts3d ms"
      and "list_all2 (\<lambda>p m. shape p = shape m) imgs ms"
  shows "mesh_geometry env imgs pts3d ms =
     Inr (Trimesh (cat_meshes env
       (map (\<lambda>i. pts3d_to_trimesh env (imgs ! i) (pts3d ! i) (ms ! i)) [0..<length imgs])))"
proof -
  have "\<forall>i \<in> set [0..<length imgs]. i < length imgs \<and> i < length pts3d \<and> i < length ms
       \<and> shape (imgs ! i) = shape (pts3d ! i) \<and> shape (ms ! i) = shape (imgs ! i)"
    using assms by (auto simp: list_all2_conv_all_nth)
  then show ?thesis
    by (simp only: mesh_geometry_def meshes_loop_total sum.case append_Nil)
qed

lemma get_3D_unfold:
  assumes "torch_tensor min_conf_thr = Inr t"
  shows "\<exists>w1. files w1 = files w \<and> writable w1 = writable w \<and> trace w1 = trace w \<and>
     get_3D_model_from_scene env w outdir scene_name (PyObj a) min_conf_thr as_pointcloud mask_sky
       clean_depth transparent_cams cam_size =
     convert_scene_output_to_glb env w1 outdir scene_name
       (scene_imgs (working_scene env (objs w a) mask_sky clean_depth))
       (scene_pts3d (working_scene env (objs w a) mask_sky clean_depth))
       (export_masks env (objs w a) t mask_sky clean_depth)
       (scene_focals (working_scene env (objs w a) mask_sky clean_depth))
       (scene_im_poses (working_scene env (objs w a) mask_sky clean_depth))
       cam_size PyNone as_pointcloud transparent_cams"
proof -
  from scene_outputs_result[OF assms, of env w a mask_sky clean_depth]
  obtain w1 b where so: "scene_outputs env w (PyObj a) min_conf_thr mask_sky clean_depth =
           (w1, Inr (Some (b,
              scene_imgs (working_scene env (objs w a) mask_sky clean_depth),
              scene_pts3d (working_scene env (objs w a) mask_sky clean_depth),
              export_masks env (objs w a) t mask_sky clean_depth,
              scene_focals (working_scene env (objs w a) mask_sky clean_depth),
              scene_im_poses (working_scene env (objs w a) mask_sky clean_depth))))"
    by blast
  from scene_outputs_frame[OF so] have "files w1 = files w \<and> writable w1 = writable w \<and> trace w1 = trace w"
    by simp
  then show ?thesis
    by (intro exI[of _ w1]) (simp add: get_3D_model_from_scene_def so)
qed

lemma get_3D_bad_threshold:
  assumes "torch_tensor min_conf_thr = Inl e"
  shows "snd (get_3D_model_from_scene env w outdir scene_name (PyObj a) min_conf_thr as_pointcloud mask_sky
       clean_depth transparent_cams cam_size) = Inl e
     \<and> files (fst (get_3D_model_from_scene env w outdir scene_name (PyObj a) min_conf_thr as_pointcloud mask_sky
       clean_depth transparent_cams cam_size)) = files w"
  using assms
  by (auto simp: get_3D_model_from_scene_def scene_outputs_def call_clean_pointcloud_def call_mask_sky_def alloc_def
                 set_min_conf_thr_def Let_def
           split: sum.splits if_splits prod.splits pyval.splits)

text \<open>
  Claim C2. Whenever an export of a scene object returns a path, the file at that path
  holds a scene whose transform is the inverse of the product of the first camera-to-world
  pose of the exported scene, the matrix \<^verbatim>\<open>OPENGL\<close> and the rotation by 180 degrees
  about the vertical axis. So the transform takes the first pose to the inverse of the
  fixed correction \<^verbatim>\<open>OPENGL @ rot\<close>, whatever world frame the poses are given in.
\<close>
theorem export_canonical_frame:
  assumes "get_3D_model_from_scene env w outdir scene_name (PyObj a) min_conf_thr as_pointcloud
             mask_sky clean_depth transparent_cams cam_size = (w', Inr (PyStr outfile))"
  shows "\<exists>sc c0 rest.
           files w' outfile = Some (Glb sc)
         \<and> scene_im_poses (working_scene env (objs w a) mask_sky clean_depth) = c0 # rest
         \<and> linalg_inv (mat_mul (mat_mul c0 (OPENGL env)) rot180) = Inr (transform sc)
         \<and> mat_mul (transform sc) (mat_mul (mat_mul c0 (OPENGL env)) rot180) = eye4
         \<and> mat_mul (mat_mul (mat_mul c0 (OPENGL env)) rot180) (transform sc) = eye4
         \<and> mat_mul (mat_mul (transform sc) c0) (mat_mul (OPENGL env) rot180) = eye4"
proof (cases "torch_tensor min_conf_thr")
  case (Inl e)
  from get_3D_bad_threshold[OF Inl, of env w outdir scene_name a as_pointcloud mask_sky
         clean_depth transparent_cams cam_size] assms
  show ?thesis by simp
next
  case (Inr t)
  from get_3D_unfold[OF Inr, of w env outdir scene_name a as_pointcloud mask_sky clean_depth
         transparent_cams cam_size] assms
  obtain w1 where conv: "convert_scene_output_to_glb env w1 outdir scene_name
       (scene_imgs (working_scene env (objs w a) mask_sky clean_depth))
       (scene_pts3d (working_scene env (objs w a) mask_sky clean_depth))
       (export_masks env (objs w a) t mask_sky clean_depth)
       (scene_focals (working_scene env (objs w a) mask_sky clean_depth))
       (scene_im_poses (working_scene env (objs w a) mask_sky clean_depth))
       cam_size PyNone as_pointcloud transparent_cams = (w', Inr (PyStr outfile))"
    by auto
  from convert_success[OF conv]
  obtain g c0 rest t where
        name: "outfile = glb_name env outdir scene_name as_pointcloud"
    and poses: "scene_im_poses (working_scene env (objs w a) mask_sky clean_depth) = c0 # rest"
    and inv: "linalg_inv (mat_mul (mat_mul c0 (OPENGL env)) rot180) = Inr t"
    and written: "files w' = (files w1)(glb_name env outdir scene_name as_pointcloud \<mapsto>
                          Glb \<lparr>geoms = [g], transform = t\<rparr>)"
    by auto
  from linalg_inv_inverse[OF inv]
  have l: "mat_mul t (mat_mul (mat_mul c0 (OPENGL env)) rot180) = eye4"
   and r: "mat_mul (mat_mul (mat_mul c0 (OPENGL env)) rot180) t = eye4"
    by simp_all
  from l have l': "mat_mul (mat_mul t c0) (mat_mul (OPENGL env) rot180) = eye4"
    by (simp add: mat_mul_assoc)
  show ?thesis
    by (intro exI[of _ "\<lparr>geoms = [g], transform = t\<rparr>"] exI[of _ c0] exI[of _ rest])
       (simp add: name written poses inv l r l')
qed

subsection \<open>The store\<close>

lemma export_store:
  assumes "get_3D_model_from_scene env w outdir scene_name (PyObj a) min_conf_thr as_pointcloud
             mask_sky clean_depth transparent_cams cam_size = (w', r)"
      and "a < nxt w"
  shows "(\<forall>b. b < nxt w \<and> b \<noteq> a \<longrightarrow> objs w' b = objs w b)
       \<and> (truthy clean_depth \<or> truthy mask_sky \<longrightarrow> objs w' a = objs w a)
       \<and> (\<not> truthy clean_depth \<and> \<not> truthy mask_sky \<longrightarrow>
            (case torch_tensor min_conf_thr of
               Inl e \<Rightarrow> objs w' a = objs w a
             | Inr t \<Rightarrow> objs w' a = (objs w a)\<lparr>scene_min_conf_thr := scene_conf_trf (objs w a) t\<rparr>))
       \<and> nxt w \<le> nxt w' \<and> writable w' = writable w"
proof -
  obtain w1 r1 where so: "scene_outputs env w (PyObj a) min_conf_thr mask_sky clean_depth = (w1, r1)"
    by (cases "scene_outputs env w (PyObj a) min_conf_thr mask_sky clean_depth")
  note st = scene_outputs_store[OF so assms(2)] and fr = scene_outputs_frame[OF so]
  have "objs w' = objs w1 \<and> nxt w' = nxt w1 \<and> writable w' = writable w1"
  proof (cases r1)
    case (Inl e)
    with assms(1) so show ?thesis by (simp add: get_3D_model_from_scene_def)
  next
    case (Inr x)
    show ?thesis
    proof (cases x)
      case None
      with assms(1) so Inr show ?thesis by (simp add: get_3D_model_from_scene_def)
    next
      case (Some y)
      obtain b i p m f c where y: "y = (b, i, p, m, f, c)" by (cases y)
      from assms(1) so Inr Some y
      have "convert_scene_output_to_glb env w1 outdir scene_name i p m f c cam_size PyNone
              as_pointcloud transparent_cams = (w', r)"
        by (simp add: get_3D_model_from_scene_def)
      from convert_frame[OF this] show ?thesis by simp
    qed
  qed
  with st fr show ?thesis by (auto split: sum.splits)
qed

lemma export_copy:
  assumes "get_3D_model_from_scene env w outdir scene_name (PyObj a) min_conf_thr as_pointcloud
             mask_sky clean_depth transparent_cams cam_size = (w', r)"
  shows "(truthy clean_depth \<or> truthy mask_sky \<longrightarrow>
            nxt w \<le> working_address w a mask_sky clean_depth
          \<and> working_address w a mask_sky clean_depth < nxt w')
       \<and> (case torch_tensor min_conf_thr of
             Inl e \<Rightarrow> True
           | Inr t \<Rightarrow>
               objs w' (working_address w a mask_sky clean_depth)
               = (working_scene env (objs w a) mask_sky clean_depth)
                   \<lparr>scene_min_conf_thr :=
                      scene_conf_trf (working_scene env (objs w a) mask_sky clean_depth) t\<rparr>)"
proof -
  obtain w1 r1 where so: "scene_outputs env w (PyObj a) min_conf_thr mask_sky clean_depth = (w1, r1)"
    by (cases "scene_outputs env w (PyObj a) min_conf_thr mask_sky clean_depth")
  have "objs w' = objs w1 \<and> nxt w' = nxt w1"
  proof (cases r1)
    case (Inl e)
    with assms so show ?thesis by (simp add: get_3D_model_from_scene_def)
  next
    case (Inr x)
    show ?thesis
    proof (cases x)
      case None
      with assms so Inr show ?thesis by (simp add: get_3D_model_from_scene_def)
    next
      case (Some y)
      obtain b i p m f c where y: "y = (b, i, p, m, f, c)" by (cases y)
      from assms so Inr Some y
      have "convert_scene_output_to_glb env w1 outdir scene_name i p m f c cam_size PyNone
              as_pointcloud transparent_cams = (w', r)"
        by (simp add: get_3D_model_from_scene_def)
      from convert_frame[OF this] show ?thesis by simp
    qed
  qed
  with scene_outputs_copy[OF so] show ?thesis
    by (cases "torch_tensor min_conf_thr") simp_all
qed

text \<open>
  Claim C4, amended. An export of the scene object at a live address \<open>a\<close> changes no
  other live object and leaves the images, point maps, confidence maps, poses and focals
  of the object as they were. When neither \<^verbatim>\<open>clean_depth\<close> nor \<^verbatim>\<open>mask_sky\<close> is
  set and the threshold is a number, the object ends with \<^verbatim>\<open>min_conf_thr\<close> set to
  its confidence transform of the threshold. When one of the two flags is set, the object
  is unchanged, \<^verbatim>\<open>min_conf_thr\<close> included, and the threshold is stored on the
  working copy: that copy is a new object, and when the threshold is a number it ends
  with the attributes that the post-processing computes and with \<^verbatim>\<open>min_conf_thr\<close>
  set to its confidence transform of the threshold.
\<close>
theorem export_store_effect:
  assumes "get_3D_model_from_scene env w outdir scene_name (PyObj a) min_conf_thr as_pointcloud
             mask_sky clean_depth transparent_cams cam_size = (w', r)"
      and "a < nxt w"
  shows "(\<forall>b. b < nxt w \<and> b \<noteq> a \<longrightarrow> objs w' b = objs w b)
       \<and> scene_imgs (objs w' a) = scene_imgs (objs w a)
       \<and> scene_pts3d (objs w' a) = scene_pts3d (objs w a)
       \<and> scene_im_conf (objs w' a) = scene_im_conf (objs w a)
       \<and> scene_im_poses (objs w' a) = scene_im_poses (objs w a)
       \<and> scene_focals (objs w' a) = scene_focals (objs w a)
       \<and> (truthy clean_depth \<or> truthy mask_sky \<longrightarrow> objs w' a = objs w a)
       \<and> (\<forall>t. \<not> truthy clean_depth \<and> \<not> truthy mask_sky \<and> torch_tensor min_conf_thr = Inr t \<longrightarrow>
            objs w' a = (objs w a)\<lparr>scene_min_conf_thr := scene_conf_trf (objs w a) t\<rparr>)
       \<and> (truthy clean_depth \<or> truthy mask_sky \<longrightarrow>
            nxt w \<le> working_address w a mask_sky clean_depth
          \<and> working_address w a mask_sky clean_depth < nxt w')
       \<and> (\<forall>t. torch_tensor min_conf_thr = Inr t \<longrightarrow>
            objs w' (working_address w a mask_sky clean_depth)
            = (working_scene env (objs w a) mask_sky clean_depth)
                \<lparr>scene_min_conf_thr :=
                   scene_conf_trf (working_scene env (objs w a) mask_sky clean_depth) t\<rparr>)"
proof -
  note st = export_store[OF assms] and cp = export_copy[OF assms(1)]
  have old: "(\<forall>b. b < nxt w \<and> b \<noteq> a \<longrightarrow> objs w' b = objs w b)
       \<and> scene_imgs (objs w' a) = scene_imgs (objs w a)
       \<and> scene_pts3d (objs w' a) = scene_pts3d (objs w a)
       \<and> scene_im_conf (objs w' a) = scene_im_conf (objs w a)
       \<and> scene_im_poses (objs w' a) = scene_im_poses (objs w a)
       \<and> scene_focals (objs w' a) = scene_focals (objs w a)
       \<and> (truthy clean_depth \<or> truthy mask_sky \<longrightarrow> objs w' a = objs w a)
       \<and> (\<forall>t. \<not> truthy clean_depth \<and> \<not> truthy mask_sky \<and> torch_tensor min_conf_thr = Inr t \<longrightarrow>
            objs w' a = (objs w a)\<lparr>scene_min_conf_thr := scene_conf_trf (objs w a) t\<rparr>)"
    using st
    by (cases "truthy clean_depth \<or> truthy mask_sky"; cases "torch_tensor min_conf_thr") auto
  have new: "(truthy clean_depth \<or> truthy mask_sky \<longrightarrow>
            nxt w \<le> working_address w a mask_sky clean_depth
          \<and> working_address w a mask_sky clean_depth < nxt w')
       \<and> (\<forall>t. torch_tensor min_conf_thr = Inr t \<longrightarrow>
            objs w' (working_address w a mask_sky clean_depth)
            = (working_scene env (objs w a) mask_sky clean_depth)
                \<lparr>scene_min_conf_thr :=
                   scene_conf_trf (working_scene env (objs w a) mask_sky clean_depth) t\<rparr>)"
    using cp by (cases "torch_tensor min_conf_thr") simp_all
  from old new show ?thesis by blast
qed

text \<open>
  On the example scene, whose threshold is 3: an export with threshold 5 and no
  post-processing leaves it with threshold 5; one with \<^verbatim>\<open>clean_depth\<close> leaves it
  as it was, and it is the copy, the new object at address 1, that ends with
  threshold 5.
\<close>

theorem export_store_effect_witness:
  "(0::nat) < nxt ex_world
   \<and> objs (fst (get_3D_model_from_scene ex_env ex_world ''out'' (PyStr ''box'') (PyObj 0)
        (PyFloat 5) (PyBool True) (PyBool False) (PyBool False) (PyBool False) (PyFloat 0.05))) 0
     = ex_scene\<lparr>scene_min_conf_thr := 5\<rparr>
   \<and> objs (fst (get_3D_model_from_scene ex_env ex_world ''out'' (PyStr ''box'') (PyObj 0)
        (PyFloat 5) (PyBool True) (PyBool False) (PyBool True) (PyBool False) (PyFloat 0.05))) 0
     = ex_scene
   \<and> working_address ex_world 0 (PyBool False) (PyBool True) = 1
   \<and> objs (fst (get_3D_model_from_scene ex_env ex_world ''out'' (PyStr ''box'') (PyObj 0)
        (PyFloat 5) (PyBool True) (PyBool False) (PyBool True) (PyBool False) (PyFloat 0.05))) 1
     = ex_scene\<lparr>scene_min_conf_thr := 5\<rparr>"
proof -
  have live: "(0::nat) < nxt ex_world" by (simp add: ex_world_def)
  have t: "torch_tensor (PyFloat 5) = Inr 5" by (simp add: torch_tensor_def)
  have f: "\<not> truthy (PyBool False)" and tr: "truthy (PyBool True)" by (simp_all add: truthy_def)
  have o: "objs ex_world 0 = ex_scene" by (simp add: ex_world_def)
  have c: "scene_conf_trf ex_scene 5 = 5" by (simp add: ex_scene_def)
  have a: "working_address ex_world 0 (PyBool False) (PyBool True) = 1"
    by (simp add: working_address_def truthy_def ex_world_def)
  have ws: "working_scene ex_env ex_scene (PyBool False) (PyBool True) = ex_scene"
    by (simp add: working_scene_def ex_env_def Let_def)
  show ?thesis
    using export_store_effect[OF surjective_pairing live, of ex_env "''out''" "PyStr ''box''"
            "PyFloat 5" "PyBool True" "PyBool False" "PyBool False" "PyBool False" "PyFloat 0.05"]
          export_store_effect[OF surjective_pairing live, of ex_env "''out''" "PyStr ''box''"
            "PyFloat 5" "PyBool True" "PyBool False" "PyBool True" "PyBool False" "PyFloat 0.05"]
    by (simp add: live t f tr o c a ws)
qed

text \<open>
  The claim as stated fails: after an export with threshold 5 and \<^verbatim>\<open>clean_depth\<close>
  set, the threshold of the scene is still 3 and not the transform of 5.
\<close>

theorem export_threshold_counterexample:
  "scene_min_conf_thr (objs (fst (get_3D_model_from_scene ex_env ex_world ''out'' (PyStr ''box'')
        (PyObj 0) (PyFloat 5) (PyBool True) (PyBool False) (PyBool True) (PyBool False)
        (PyFloat 0.05))) 0) = 3
   \<and> scene_conf_trf (objs ex_world 0) 5 = 5
   \<and> objs (fst (get_3D_model_from_scene ex_env ex_world ''out'' (PyStr ''box'')
        (PyObj 0) (PyFloat 5) (PyBool True) (PyBool False) (PyBool True) (PyBool False)
        (PyFloat 0.05))) 0
     \<noteq> (objs ex_world 0)\<lparr>scene_min_conf_thr := scene_conf_trf (objs ex_world 0) 5\<rparr>"
proof -
  have live: "(0::nat) < nxt ex_world" by (simp add: ex_world_def)
  have tr: "truthy (PyBool True)" by (simp add: truthy_def)
  have o: "objs ex_world 0 = ex_scene" by (simp add: ex_world_def)
  have "objs (fst (get_3D_model_from_scene ex_env ex_world ''out'' (PyStr ''box'')
        (PyObj 0) (PyFloat 5) (PyBool True) (PyBool False) (PyBool True) (PyBool False)
        (PyFloat 0.05))) 0 = ex_scene"
    using export_store[OF surjective_pairing live, of ex_env "''out''" "PyStr ''box''"
            "PyFloat 5" "PyBool True" "PyBool False" "PyBool True" "PyBool False" "PyFloat 0.05"]
    by (simp add: tr o)
  moreover have "ex_scene \<noteq> ex_scene\<lparr>scene_min_conf_thr := 5\<rparr>"
  proof
    assume "ex_scene = ex_scene\<lparr>scene_min_conf_thr := 5\<rparr>"
    then have "scene_min_conf_thr ex_scene = scene_min_conf_thr (ex_scene\<lparr>scene_min_conf_thr := 5\<rparr>)"
      by simp
    then show False by (simp add: ex_scene_def)
  qed
  ultimately show ?thesis by (simp add: o ex_scene_def)
qed

lemma convert_files:
  "files (fst (convert_scene_output_to_glb env w outdir scene_name imgs pts3d mask' focals
      cams2world cam_size cam_color as_pointcloud transparent_cams))
   = files w ++ files (fst (convert_scene_output_to_glb env (w\<lparr>files := Map.empty\<rparr>) outdir
      scene_name imgs pts3d mask' focals cams2world cam_size cam_color as_pointcloud
      transparent_cams))"
  by (auto simp: convert_scene_output_to_glb_def Let_def emit_def scene_export_cases
           split: sum.splits if_splits prod.splits)

lemma convert_cong:
  assumes "writable v = writable w"
  shows "snd (convert_scene_output_to_glb env v outdir scene_name imgs pts3d mask' focals
      cams2world cam_size cam_color as_pointcloud transparent_cams)
   = snd (convert_scene_output_to_glb env w outdir scene_name imgs pts3d mask' focals
      cams2world cam_size cam_color as_pointcloud transparent_cams)
   \<and> files (fst (convert_scene_output_to_glb env (v\<lparr>files := Map.empty\<rparr>) outdir scene_name
      imgs pts3d mask' focals cams2world cam_size cam_color as_pointcloud transparent_cams))
   = files (fst (convert_scene_output_to_glb env (w\<lparr>files := Map.empty\<rparr>) outdir scene_name
      imgs pts3d mask' focals cams2world cam_size cam_color as_pointcloud transparent_cams))"
  using assms
  by (auto simp: convert_scene_output_to_glb_def Let_def emit_def scene_export_cases
           split: sum.splits if_splits prod.splits)

subsection \<open>A run of the export on the example scene\<close>

lemma ex_working: "working_scene ex_env s mask_sky clean_depth = s"
  by (simp add: working_scene_def ex_env_def Let_def)

lemma ex_masks:
  "export_masks ex_env ex_scene t mask_sky clean_depth =
     [NdArray (1, 2) [t \<le> 5, t \<le> 1], NdArray (1, 2) [t \<le> 5, t \<le> 1]]"
  by (simp add: export_masks_def ex_working Let_def)
     (simp add: ex_env_def ex_scene_def ex_conf_def array_map_def)

lemma ex_inv:
  "linalg_inv (mat_mul (mat_mul eye4 (OPENGL ex_env)) rot180)
     = Inr ((- 1, 0, 0, 0), (0, - 1, 0, 0), (0, 0, 1, 0), (0, 0, 0, 1))"
  by (simp add: ex_env_def linalg_inv_def det4_def adj4_def mat_defs rot180_def Let_def)

lemma ex_name: "glb_name ex_env ''out'' (PyStr ''box'') (PyBool True) = ''out/box_pointcloud.glb''"
  by (simp add: glb_name_def path_join_def py_str_def truthy_def)

lemma ex_geometry:
  "pointcloud_geometry [ex_img, ex_img] [ex_pts, ex_pts]
     [NdArray (1, 2) [True, False], NdArray (1, 2) [True, False]]
   = Inr (PointCloud [(0, 0, 1), (0, 0, 1)] [(1, 0, 0), (1, 0, 0)])"
  by (simp add: pointcloud_geometry_def bool_index_def concatenate_def ex_img_def ex_pts_def)

lemma ex_run:
  "snd (get_3D_model_from_scene ex_env ex_world ''out'' (PyStr ''box'') (PyObj 0) (PyFloat 3)
         (PyBool True) (PyBool False) (PyBool False) (PyBool False) (PyFloat 0.05))
     = Inr (PyStr ''out/box_pointcloud.glb'')"
proof -
  have t: "torch_tensor (PyFloat 3) = Inr 3" by (simp add: torch_tensor_def)
  have o: "objs ex_world 0 = ex_scene" by (simp add: ex_world_def)
  from get_3D_unfold[OF t, of ex_world ex_env "''out''" "PyStr ''box''" 0 "PyBool True"
         "PyBool False" "PyBool False" "PyBool False" "PyFloat 0.05"]
  obtain w1 where w1: "writable w1 = writable ex_world"
    and run: "get_3D_model_from_scene ex_env ex_world ''out'' (PyStr ''box'') (PyObj 0) (PyFloat 3)
         (PyBool True) (PyBool False) (PyBool False) (PyBool False) (PyFloat 0.05)
       = convert_scene_output_to_glb ex_env w1 ''out'' (PyStr ''box'')
           (scene_imgs ex_scene) (scene_pts3d ex_scene)
           [NdArray (1, 2) [True, False], NdArray (1, 2) [True, False]]
           (scene_focals ex_scene) (scene_im_poses ex_scene)
           (PyFloat 0.05) PyNone (PyBool True) (PyBool False)"
    by (auto simp: o ex_working ex_masks)
  have wr: "writable w1 (glb_name ex_env ''out'' (PyStr ''box'') (PyBool True))"
    by (simp add: w1 ex_world_def)
  have g: "(if truthy (PyBool True)
            then pointcloud_geometry (scene_imgs ex_scene) (scene_pts3d ex_scene)
                   [NdArray (1, 2) [True, False], NdArray (1, 2) [True, False]]
            else mesh_geometry ex_env (scene_imgs ex_scene) (scene_pts3d ex_scene)
                   [NdArray (1, 2) [True, False], NdArray (1, 2) [True, False]])
           = Inr (PointCloud [(0, 0, 1), (0, 0, 1)] [(1, 0, 0), (1, 0, 0)])"
    using ex_geometry by (simp add: truthy_def ex_scene_def)
  have p: "scene_im_poses ex_scene = eye4 # [eye4]" by (simp add: ex_scene_def)
  show ?thesis
    unfolding run
    by (subst convert_total[OF _ _ _ _ g p ex_inv wr])
       (simp_all add: ex_scene_def ex_name no_points_def)
qed

text \<open>
  The export of the example scene as a point cloud: its first pose is the identity, and
  the transform written is the inverse of \<^verbatim>\<open>OPENGL @ rot\<close>.
\<close>

theorem export_canonical_frame_witness:
  "get_3D_model_from_scene ex_env ex_world ''out'' (PyStr ''box'') (PyObj 0) (PyFloat 3)
       (PyBool True) (PyBool False) (PyBool False) (PyBool False) (PyFloat 0.05)
     = (fst (get_3D_model_from_scene ex_env ex_world ''out'' (PyStr ''box'') (PyObj 0) (PyFloat 3)
              (PyBool True) (PyBool False) (PyBool False) (PyBool False) (PyFloat 0.05)),
        Inr (PyStr ''out/box_pointcloud.glb''))
   \<and> (\<exists>sc. files (fst (get_3D_model_from_scene ex_env ex_world ''out'' (PyStr ''box'') (PyObj 0)
              (PyFloat 3) (PyBool True) (PyBool False) (PyBool False) (PyBool False)
              (PyFloat 0.05))) ''out/box_pointcloud.glb'' = Some (Glb sc)
         \<and> transform sc = ((- 1, 0, 0, 0), (0, - 1, 0, 0), (0, 0, 1, 0), (0, 0, 0, 1))
         \<and> mat_mul (mat_mul (transform sc) eye4) (mat_mul (OPENGL ex_env) rot180) = eye4)"
proof -
  have run: "get_3D_model_from_scene ex_env ex_world ''out'' (PyStr ''box'') (PyObj 0) (PyFloat 3)
       (PyBool True) (PyBool False) (PyBool False) (PyBool False) (PyFloat 0.05)
     = (fst (get_3D_model_from_scene ex_env ex_world ''out'' (PyStr ''box'') (PyObj 0) (PyFloat 3)
              (PyBool True) (PyBool False) (PyBool False) (PyBool False) (PyFloat 0.05)),
        Inr (PyStr ''out/box_pointcloud.glb''))"
    using ex_run by (simp add: prod_eq_iff)
  have o: "objs ex_world 0 = ex_scene" by (simp add: ex_world_def)
  from export_canonical_frame[OF run]
  obtain sc c0 rest where
        f: "files (fst (get_3D_model_from_scene ex_env ex_world ''out'' (PyStr ''box'') (PyObj 0)
              (PyFloat 3) (PyBool True) (PyBool False) (PyBool False) (PyBool False)
              (PyFloat 0.05))) ''out/box_pointcloud.glb'' = Some (Glb sc)"
    and p: "scene_im_poses (working_scene ex_env (objs ex_world 0) (PyBool False) (PyBool False)) = c0 # rest"
    and i: "linalg_inv (mat_mul (mat_mul c0 (OPENGL ex_env)) rot180) = Inr (transform sc)"
    and m: "mat_mul (mat_mul (transform sc) c0) (mat_mul (OPENGL ex_env) rot180) = eye4"
    by blast
  from p have c0: "c0 = eye4" by (simp add: o ex_working ex_scene_def)
  from i have "transform sc = ((- 1, 0, 0, 0), (0, - 1, 0, 0), (0, 0, 1, 0), (0, 0, 0, 1))"
    by (simp add: c0 ex_inv)
  with f m run show ?thesis by (auto simp: c0)
qed

text \<open>
  One point map and no mask fail the assertion; one of each pass it.
\<close>

theorem converter_length_assertion_witness:
  "\<not> (length [ex_pts] = length ([] :: mask list) \<and> length ([] :: mask list) \<le> length [ex_img]
        \<and> length [ex_img] \<le> length [eye4] \<and> length [eye4] = length [1 :: real])
   \<and> convert_scene_output_to_glb ex_env ex_world ''out'' (PyStr ''box'') [ex_img] [ex_pts] []
        [1] [eye4] (PyFloat 0.05) PyNone (PyBool True) (PyBool False)
       = (ex_world, Inl AssertionError)
   \<and> length [ex_pts] = length [ex_img] \<and> length [ex_mask] = length [ex_img]
   \<and> length [eye4] = length [ex_img] \<and> length [1 :: real] = length [ex_img]
   \<and> snd (convert_scene_output_to_glb ex_env ex_world ''out'' (PyStr ''box'') [ex_img] [ex_pts]
        [ex_mask] [1] [eye4] (PyFloat 0.05) PyNone (PyBool True) (PyBool False))
       \<noteq> Inl AssertionError"
  using converter_length_assertion[of "[ex_pts]" "[]" "[ex_img]" "[eye4]" "[1]" ex_env ex_world
          "''out''" "PyStr ''box''" "PyFloat 0.05" PyNone "PyBool True" "PyBool False"]
        converter_length_assertion[of "[ex_pts]" "[ex_mask]" "[ex_img]" "[eye4]" "[1]" ex_env
          ex_world "''out''" "PyStr ''box''" "PyFloat 0.05" PyNone "PyBool True" "PyBool False"]
  by simp

text \<open>
  The claim as stated fails: the chain is not all that the converter requires. One image,
  one pose and one focal length with no point map and no mask satisfy the chain, and the
  mesh loop, which runs over \<^verbatim>\<open>range(len(imgs))\<close>, ends in \<^verbatim>\<open>IndexError\<close> at
  \<^verbatim>\<open>pts3d[0]\<close>. And five sequences of length one, with an image of shape
  \<open>(2, 2)\<close> and a point map of shape \<open>(1, 2)\<close>, pass the assertion of line 65 and
  fail the one of \<^verbatim>\<open>pts3d_to_trimesh\<close>.
\<close>

theorem converter_length_relation_counterexample:
  "length ([] :: pointmap list) = length ([] :: mask list)
   \<and> length ([] :: mask list) \<le> length [ex_img]
   \<and> length [ex_img] \<le> length [eye4] \<and> length [eye4] = length [1 :: real]
   \<and> convert_scene_output_to_glb ex_env ex_world ''out'' (PyStr ''box'') [ex_img] [] []
        [1] [eye4] (PyFloat 0.05) PyNone (PyBool False) (PyBool False)
       = (ex_world, Inl IndexError)
   \<and> length [ex_pts] = length [NdArray (2, 2) [(1, 0, 0), (0, 1, 0), (0, 0, 1), (1, 1, 1)] :: image]
   \<and> length [ex_mask] = length [ex_pts]
   \<and> length [eye4] = length [ex_pts] \<and> length [1 :: real] = length [ex_pts]
   \<and> convert_scene_output_to_glb ex_env ex_world ''out'' (PyStr ''box'')
        [NdArray (2, 2) [(1, 0, 0), (0, 1, 0), (0, 0, 1), (1, 1, 1)]] [ex_pts] [ex_mask]
        [1] [eye4] (PyFloat 0.05) PyNone (PyBool False) (PyBool False)
       = (ex_world, Inl VizAssertionError)"
  by (simp add: convert_scene_output_to_glb_def mesh_geometry_def py_get_def truthy_def
                call_pts3d_to_trimesh_def ex_pts_def ex_img_def ex_mask_def)

subsection \<open>Exporting twice, and exporting empty masks\<close>

lemma scene_outputs_value:
  "map_sum id (map_option snd) (snd (scene_outputs env w (PyObj a) min_conf_thr mask_sky clean_depth))
   = (case torch_tensor min_conf_thr of
        Inl e \<Rightarrow> Inl e
      | Inr t \<Rightarrow> Inr (Some
          (scene_imgs (working_scene env (objs w a) mask_sky clean_depth),
           scene_pts3d (working_scene env (objs w a) mask_sky clean_depth),
           export_masks env (objs w a) t mask_sky clean_depth,
           scene_focals (working_scene env (objs w a) mask_sky clean_depth),
           scene_im_poses (working_scene env (objs w a) mask_sky clean_depth))))"
  by (auto simp: scene_outputs_def call_clean_pointcloud_def call_mask_sky_def alloc_def
                 set_min_conf_thr_def Let_def working_scene_def export_masks_def
           split: sum.splits if_splits prod.splits pyval.splits)

lemma export_inputs_after_threshold:
  assumes "\<not> truthy clean_depth" "\<not> truthy mask_sky"
  shows "working_scene env (s\<lparr>scene_min_conf_thr := c\<rparr>) mask_sky clean_depth = s\<lparr>scene_min_conf_thr := c\<rparr>"
    and "working_scene env s mask_sky clean_depth = s"
    and "export_masks env (s\<lparr>scene_min_conf_thr := c\<rparr>) t mask_sky clean_depth
         = export_masks env s t mask_sky clean_depth"
  using assms by (simp_all add: working_scene_def export_masks_def Let_def)

lemma export_value:
  "snd (get_3D_model_from_scene env w outdir scene_name (PyObj a) min_conf_thr as_pointcloud
          mask_sky clean_depth transparent_cams cam_size)
   = (case torch_tensor min_conf_thr of
        Inl e \<Rightarrow> Inl e
      | Inr t \<Rightarrow>
          snd (convert_scene_output_to_glb env w outdir scene_name
            (scene_imgs (working_scene env (objs w a) mask_sky clean_depth))
            (scene_pts3d (working_scene env (objs w a) mask_sky clean_depth))
            (export_masks env (objs w a) t mask_sky clean_depth)
            (scene_focals (working_scene env (objs w a) mask_sky clean_depth))
            (scene_im_poses (working_scene env (objs w a) mask_sky clean_depth))
            cam_size PyNone as_pointcloud transparent_cams))
   \<and> files (fst (get_3D_model_from_scene env w outdir scene_name (PyObj a) min_conf_thr
          as_pointcloud mask_sky clean_depth transparent_cams cam_size))
   = (case torch_tensor min_conf_thr of
        Inl e \<Rightarrow> files w
      | Inr t \<Rightarrow>
          files w ++ files (fst (convert_scene_output_to_glb env (w\<lparr>files := Map.empty\<rparr>)
            outdir scene_name
            (scene_imgs (working_scene env (objs w a) mask_sky clean_depth))
            (scene_pts3d (working_scene env (objs w a) mask_sky clean_depth))
            (export_masks env (objs w a) t mask_sky clean_depth)
            (scene_focals (working_scene env (objs w a) mask_sky clean_depth))
            (scene_im_poses (working_scene env (objs w a) mask_sky clean_depth))
            cam_size PyNone as_pointcloud transparent_cams)))"
proof (cases "torch_tensor min_conf_thr")
  case (Inl e)
  with get_3D_bad_threshold[OF Inl, of env w outdir scene_name a as_pointcloud mask_sky
         clean_depth transparent_cams cam_size]
  show ?thesis by simp
next
  case (Inr t)
  from get_3D_unfold[OF Inr, of w env outdir scene_name a as_pointcloud mask_sky clean_depth
         transparent_cams cam_size]
  obtain w1 where f: "files w1 = files w" and wr: "writable w1 = writable w"
    and run: "get_3D_model_from_scene env w outdir scene_name (PyObj a) min_conf_thr as_pointcloud
       mask_sky clean_depth transparent_cams cam_size =
     convert_scene_output_to_glb env w1 outdir scene_name
       (scene_imgs (working_scene env (objs w a) mask_sky clean_depth))
       (scene_pts3d (working_scene env (objs w a) mask_sky clean_depth))
       (export_masks env (objs w a) t mask_sky clean_depth)
       (scene_focals (working_scene env (objs w a) mask_sky clean_depth))
       (scene_im_poses (working_scene env (objs w a) mask_sky clean_depth))
       cam_size PyNone as_pointcloud transparent_cams"
    by blast
  show ?thesis
    unfolding run
    by (subst convert_files) (simp add: Inr f convert_cong[OF wr])
qed

text \<open>
  Claim C5. Two exports of the scene object at a live address, one after the other, with
  the same arguments: the second computes the same per-view masks (and the same other
  inputs of the converter) as the first, so the same number of masked points, returns
  the same result and leaves the same files.
\<close>

theorem export_twice_same_masks:
  assumes live: "a < nxt w"
      and run1: "get_3D_model_from_scene env w outdir scene_name (PyObj a) min_conf_thr
                   as_pointcloud mask_sky clean_depth transparent_cams cam_size = (w1, r1)"
      and run2: "get_3D_model_from_scene env w1 outdir scene_name (PyObj a) min_conf_thr
                   as_pointcloud mask_sky clean_depth transparent_cams cam_size = (w2, r2)"
  shows "map_sum id (map_option snd)
           (snd (scene_outputs env w1 (PyObj a) min_conf_thr mask_sky clean_depth))
         = map_sum id (map_option snd)
           (snd (scene_outputs env w (PyObj a) min_conf_thr mask_sky clean_depth))
       \<and> (\<forall>t. torch_tensor min_conf_thr = Inr t \<longrightarrow>
             export_masks env (objs w1 a) t mask_sky clean_depth
               = export_masks env (objs w a) t mask_sky clean_depth
           \<and> masked_count (export_masks env (objs w1 a) t mask_sky clean_depth)
               = masked_count (export_masks env (objs w a) t mask_sky clean_depth))
       \<and> r2 = r1
       \<and> files w2 = files w1"
proof -
  note st = export_store[OF run1 live]
  have wr: "writable w1 = writable w" using st by simp
  have same: "scene_imgs (working_scene env (objs w1 a) mask_sky clean_depth)
                = scene_imgs (working_scene env (objs w a) mask_sky clean_depth)
              \<and> scene_pts3d (working_scene env (objs w1 a) mask_sky clean_depth)
                = scene_pts3d (working_scene env (objs w a) mask_sky clean_depth)
              \<and> scene_focals (working_scene env (objs w1 a) mask_sky clean_depth)
                = scene_focals (working_scene env (objs w a) mask_sky clean_depth)
              \<and> scene_im_poses (working_scene env (objs w1 a) mask_sky clean_depth)
                = scene_im_poses (working_scene env (objs w a) mask_sky clean_depth)
              \<and> export_masks env (objs w1 a) t mask_sky clean_depth
                = export_masks env (objs w a) t mask_sky clean_depth"
    if t: "torch_tensor min_conf_thr = Inr t" for t
  proof (cases "truthy clean_depth \<or> truthy mask_sky")
    case True
    with st have "objs w1 a = objs w a" by blast
    then show ?thesis by simp
  next
    case False
    with st t have o: "objs w1 a = (objs w a)\<lparr>scene_min_conf_thr := scene_conf_trf (objs w a) t\<rparr>"
      by simp
    from False have f: "\<not> truthy clean_depth" "\<not> truthy mask_sky" by simp_all
    show ?thesis
      unfolding o by (simp add: export_inputs_after_threshold[OF f])
  qed
  have masks: "map_sum id (map_option snd)
           (snd (scene_outputs env w1 (PyObj a) min_conf_thr mask_sky clean_depth))
         = map_sum id (map_option snd)
           (snd (scene_outputs env w (PyObj a) min_conf_thr mask_sky clean_depth))"
    unfolding scene_outputs_value using same by (cases "torch_tensor min_conf_thr") simp_all
  from run1 have r1: "r1 = snd (get_3D_model_from_scene env w outdir scene_name (PyObj a)
        min_conf_thr as_pointcloud mask_sky clean_depth transparent_cams cam_size)"
    and f1: "files w1 = files (fst (get_3D_model_from_scene env w outdir scene_name (PyObj a)
        min_conf_thr as_pointcloud mask_sky clean_depth transparent_cams cam_size))"
    by simp_all
  from run2 have r2: "r2 = snd (get_3D_model_from_scene env w1 outdir scene_name (PyObj a)
        min_conf_thr as_pointcloud mask_sky clean_depth transparent_cams cam_size)"
    and f2: "files w2 = files (fst (get_3D_model_from_scene env w1 outdir scene_name (PyObj a)
        min_conf_thr as_pointcloud mask_sky clean_depth transparent_cams cam_size))"
    by simp_all
  have idem: "(m ++ u) ++ u = m ++ u" for m u :: "string \<rightharpoonup> content"
    by (simp add: map_add_def fun_eq_iff split: option.splits)
  have res: "r2 = r1"
    unfolding r1 r2
    by (cases "torch_tensor min_conf_thr")
       (simp_all add: export_value same convert_cong[OF wr])
  have fl: "files w2 = files w1"
  proof (cases "torch_tensor min_conf_thr")
    case (Inl e)
    then show ?thesis unfolding f2 by (simp add: export_value)
  next
    case (Inr t)
    show ?thesis
      unfolding f2
      by (simp add: export_value Inr same[OF Inr] convert_cong[OF wr] f1 idem)
  qed
  from masks same res fl show ?thesis by simp
qed

text \<open>
  On the example scene with threshold 5: both exports keep the first cell of each view.
\<close>

theorem export_twice_same_masks_witness:
  "(0::nat) < nxt ex_world
   \<and> snd (get_3D_model_from_scene ex_env
        (fst (get_3D_model_from_scene ex_env ex_world ''out'' (PyStr ''box'') (PyObj 0)
                (PyFloat 5) (PyBool True) (PyBool False) (PyBool False) (PyBool False)
                (PyFloat 0.05)))
        ''out'' (PyStr ''box'') (PyObj 0) (PyFloat 5) (PyBool True) (PyBool False) (PyBool False)
        (PyBool False) (PyFloat 0.05))
     = snd (get_3D_model_from_scene ex_env ex_world ''out'' (PyStr ''box'') (PyObj 0)
                (PyFloat 5) (PyBool True) (PyBool False) (PyBool False) (PyBool False)
                (PyFloat 0.05))
   \<and> export_masks ex_env
        (objs (fst (get_3D_model_from_scene ex_env ex_world ''out'' (PyStr ''box'') (PyObj 0)
                (PyFloat 5) (PyBool True) (PyBool False) (PyBool False) (PyBool False)
                (PyFloat 0.05))) 0) 5 (PyBool False) (PyBool False)
     = [NdArray (1, 2) [True, False], NdArray (1, 2) [True, False]]
   \<and> export_masks ex_env (objs ex_world 0) 5 (PyBool False) (PyBool False)
     = [NdArray (1, 2) [True, False], NdArray (1, 2) [True, False]]"
proof -
  have live: "(0::nat) < nxt ex_world" by (simp add: ex_world_def)
  have t: "torch_tensor (PyFloat 5) = Inr 5" by (simp add: torch_tensor_def)
  have o: "objs ex_world 0 = ex_scene" by (simp add: ex_world_def)
  show ?thesis
    using export_twice_same_masks[OF live surjective_pairing surjective_pairing,
            of ex_env "''out''" "PyStr ''box''" "PyFloat 5" "PyBool True" "PyBool False"
               "PyBool False" "PyBool False" "PyFloat 0.05"]
    by (simp add: live t o ex_masks)
qed

text \<open>
  Claim C9 does not hold of the code when the export is a point cloud. Take a scene with
  at least one view, whose per-view sequences have one length, whose masks have the
  shapes of its point maps and images and whose first pose gives an invertible matrix,
  and a threshold that leaves every mask empty. The masking and the concatenation do not
  raise and give the point cloud of no points; the converter prints the line that
  announces the file; then \<^verbatim>\<open>scene.export\<close> raises \<^verbatim>\<open>ValueError\<close>, so the
  export ends in that error and writes no file.
\<close>

theorem empty_pointcloud_export_raises:
  fixes env :: "'o env" and w :: world and a :: nat and mask_sky clean_depth :: pyval
    and t :: real and s :: scene and ms :: "mask list"
  defines "s \<equiv> working_scene env (objs w a) mask_sky clean_depth"
  defines "ms \<equiv> export_masks env (objs w a) t mask_sky clean_depth"
  assumes thr: "torch_tensor min_conf_thr = Inr t"
      and pc: "truthy as_pointcloud"
      and views: "scene_imgs s \<noteq> []"
      and shapes_pts: "list_all2 (\<lambda>p m. shape p = shape m) (scene_pts3d s) ms"
      and shapes_img: "list_all2 (\<lambda>p m. shape p = shape m) (scene_imgs s) ms"
      and len_poses: "length (scene_im_poses s) = length (scene_imgs s)"
      and len_focals: "length (scene_focals s) = length (scene_imgs s)"
      and pose: "det4 (mat_mul (mat_mul (hd (scene_im_poses s)) (OPENGL env)) rot180) \<noteq> 0"
      and empty: "\<forall>m \<in> set ms. \<forall>b \<in> set (cells m). \<not> b"
  shows "masked_count ms = 0
         \<and> pointcloud_geometry (scene_imgs s) (scene_pts3d s) ms = Inr (PointCloud [] [])
         \<and> snd (get_3D_model_from_scene env w outdir scene_name (PyObj a) min_conf_thr
                as_pointcloud mask_sky clean_depth transparent_cams cam_size)
           = Inl ValueError
         \<and> files (fst (get_3D_model_from_scene env w outdir scene_name (PyObj a) min_conf_thr
                as_pointcloud mask_sky clean_depth transparent_cams cam_size))
           = files w
         \<and> trace (fst (get_3D_model_from_scene env w outdir scene_name (PyObj a) min_conf_thr
                as_pointcloud mask_sky clean_depth transparent_cams cam_size))
           = trace w @ [Printed (''(exporting 3D scene to ''
                          @ glb_name env outdir scene_name as_pointcloud @ '' )'')]"
proof -
  from get_3D_unfold[OF thr, of w env outdir scene_name a as_pointcloud mask_sky clean_depth
         transparent_cams cam_size]
  obtain w1 where f: "files w1 = files w" and tr1: "trace w1 = trace w"
    and run: "get_3D_model_from_scene env w outdir scene_name (PyObj a) min_conf_thr as_pointcloud
       mask_sky clean_depth transparent_cams cam_size =
     convert_scene_output_to_glb env w1 outdir scene_name
       (scene_imgs s) (scene_pts3d s) ms (scene_focals s) (scene_im_poses s)
       cam_size PyNone as_pointcloud transparent_cams"
    unfolding s_def ms_def by blast
  from shapes_pts have lp: "length (scene_pts3d s) = length ms" by (rule list_all2_lengthD)
  from shapes_img have li: "length (scene_imgs s) = length ms" by (rule list_all2_lengthD)
  from views li have ne: "ms \<noteq> []" by auto
  have pg: "pointcloud_geometry (scene_imgs s) (scene_pts3d s) ms = Inr (PointCloud [] [])"
    by (rule pointcloud_geometry_empty[OF shapes_pts shapes_img empty ne])
  have geo: "(if truthy as_pointcloud then pointcloud_geometry (scene_imgs s) (scene_pts3d s) ms
             else mesh_geometry env (scene_imgs s) (scene_pts3d s) ms) = Inr (PointCloud [] [])"
    using pc by (simp only: if_True pg)
  from views len_poses obtain c0 rest where cams: "scene_im_poses s = c0 # rest"
    by (cases "scene_im_poses s") auto
  with pose have d: "det4 (mat_mul (mat_mul c0 (OPENGL env)) rot180) \<noteq> 0" by simp
  define tr where "tr = scale4 (1 / det4 (mat_mul (mat_mul c0 (OPENGL env)) rot180))
                               (adj4 (mat_mul (mat_mul c0 (OPENGL env)) rot180))"
  from d have inv: "linalg_inv (mat_mul (mat_mul c0 (OPENGL env)) rot180) = Inr tr"
    by (simp add: linalg_inv_def tr_def)
  have np: "no_points (PointCloud [] [])" by (simp add: no_points_def)
  have l1: "length (scene_pts3d s) = length ms" by (rule lp)
  have l2: "length ms \<le> length (scene_imgs s)" using li by simp
  have l3: "length (scene_imgs s) \<le> length (scene_im_poses s)" using len_poses by simp
  have l4: "length (scene_im_poses s) = length (scene_focals s)" using len_poses len_focals by simp
  note conv = convert_no_points[OF l1 l2 l3 l4 geo cams inv np, of w1 outdir scene_name cam_size
                PyNone transparent_cams]
  have cnt: "masked_count ms = 0"
    using empty by (auto simp: masked_count_def filter_empty_conv)
  show ?thesis
    unfolding run conv by (simp add: cnt pg f tr1)
qed

text \<open>
  On the example scene, threshold 10 is above every confidence: the export as a point
  cloud ends in \<^verbatim>\<open>ValueError\<close> and leaves no file.
\<close>

theorem empty_pointcloud_export_raises_witness:
  "torch_tensor (PyFloat 10) = Inr 10
   \<and> export_masks ex_env (objs ex_world 0) 10 (PyBool False) (PyBool True)
       = [NdArray (1, 2) [False, False], NdArray (1, 2) [False, False]]
   \<and> snd (get_3D_model_from_scene ex_env ex_world ''out'' (PyStr ''box'') (PyObj 0)
         (PyFloat 10) (PyBool True) (PyBool False) (PyBool True) (PyBool False) (PyFloat 0.05))
       = Inl ValueError
   \<and> files (fst (get_3D_model_from_scene ex_env ex_world ''out'' (PyStr ''box'') (PyObj 0)
         (PyFloat 10) (PyBool True) (PyBool False) (PyBool True) (PyBool False) (PyFloat 0.05)))
       = Map.empty
   \<and> trace (fst (get_3D_model_from_scene ex_env ex_world ''out'' (PyStr ''box'') (PyObj 0)
         (PyFloat 10) (PyBool True) (PyBool False) (PyBool True) (PyBool False) (PyFloat 0.05)))
       = [Printed ''(exporting 3D scene to out/box_pointcloud.glb )'']"
proof -
  have t: "torch_tensor (PyFloat 10) = Inr 10" by (simp add: torch_tensor_def)
  have o: "objs ex_world 0 = ex_scene" by (simp add: ex_world_def)
  have m: "export_masks ex_env ex_scene 10 (PyBool False) (PyBool True)
       = [NdArray (1, 2) [False, False], NdArray (1, 2) [False, False]]"
    by (simp add: ex_masks)
  have tr: "truthy (PyBool True)" by (simp add: truthy_def)
  have views: "scene_imgs (working_scene ex_env (objs ex_world 0) (PyBool False) (PyBool True)) \<noteq> []"
    by (simp add: o ex_working ex_scene_def)
  have sp: "list_all2 (\<lambda>p m. shape p = shape m)
              (scene_pts3d (working_scene ex_env (objs ex_world 0) (PyBool False) (PyBool True)))
              (export_masks ex_env (objs ex_world 0) 10 (PyBool False) (PyBool True))"
    by (simp add: o ex_working m) (simp add: ex_scene_def ex_pts_def)
  have si: "list_all2 (\<lambda>p m. shape p = shape m)
              (scene_imgs (working_scene ex_env (objs ex_world 0) (PyBool False) (PyBool True)))
              (export_masks ex_env (objs ex_world 0) 10 (PyBool False) (PyBool True))"
    by (simp add: o ex_working m) (simp add: ex_scene_def ex_img_def)
  have lp: "length (scene_im_poses (working_scene ex_env (objs ex_world 0) (PyBool False) (PyBool True)))
          = length (scene_imgs (working_scene ex_env (objs ex_world 0) (PyBool False) (PyBool True)))"
    by (simp add: o ex_working ex_scene_def)
  have lf: "length (scene_focals (working_scene ex_env (objs ex_world 0) (PyBool False) (PyBool True)))
          = length (scene_imgs (working_scene ex_env (objs ex_world 0) (PyBool False) (PyBool True)))"
    by (simp add: o ex_working ex_scene_def)
  have d: "det4 (mat_mul (mat_mul
              (hd (scene_im_poses (working_scene ex_env (objs ex_world 0) (PyBool False) (PyBool True))))
              (OPENGL ex_env)) rot180) \<noteq> 0"
    using ex_inv by (auto simp: o ex_working ex_scene_def linalg_inv_def split: if_splits)
  have e: "\<forall>m \<in> set (export_masks ex_env (objs ex_world 0) 10 (PyBool False) (PyBool True)).
             \<forall>b \<in> set (cells m). \<not> b"
    by (simp add: o m)
  have fl: "files ex_world = Map.empty" and tc: "trace ex_world = []"
    by (simp_all add: ex_world_def)
  note pc = empty_pointcloud_export_raises[OF t tr views sp si lp lf d e, of "''out''"
              "PyStr ''box''" "PyBool False" "PyFloat 0.05"]
  from pc have pc': "snd (get_3D_model_from_scene ex_env ex_world ''out'' (PyStr ''box'') (PyObj 0)
         (PyFloat 10) (PyBool True) (PyBool False) (PyBool True) (PyBool False) (PyFloat 0.05))
       = Inl ValueError
   \<and> files (fst (get_3D_model_from_scene ex_env ex_world ''out'' (PyStr ''box'') (PyObj 0)
         (PyFloat 10) (PyBool True) (PyBool False) (PyBool True) (PyBool False) (PyFloat 0.05)))
       = Map.empty
   \<and> trace (fst (get_3D_model_from_scene ex_env ex_world ''out'' (PyStr ''box'') (PyObj 0)
         (PyFloat 10) (PyBool True) (PyBool False) (PyBool True) (PyBool False) (PyFloat 0.05)))
       = [Printed ''(exporting 3D scene to out/box_pointcloud.glb )'']"
    by (simp add: ex_name fl tc)
  from t m pc' show ?thesis by ((simp only: o), simp?)
qed

section \<open>The reconstruction: the theorems\<close>

lemma convert_trace:
  "\<exists>ps. list_all is_printed ps \<and>
     trace (fst (convert_scene_output_to_glb env w outdir scene_name imgs pts3d mask' focals
       cams2world cam_size cam_color as_pointcloud transparent_cams)) = trace w @ ps"
proof (cases "\<exists>w' v. convert_scene_output_to_glb env w outdir scene_name imgs pts3d mask' focals
       cams2world cam_size cam_color as_pointcloud transparent_cams = (w', v)
       \<and> trace w' = trace w")
  case True
  then show ?thesis by (intro exI[of _ "[]"]) auto
next
  case False
  then have "trace (fst (convert_scene_output_to_glb env w outdir scene_name imgs pts3d mask' focals
       cams2world cam_size cam_color as_pointcloud transparent_cams))
     = trace w @ [Printed (''(exporting 3D scene to ''
                            @ glb_name env outdir scene_name as_pointcloud @ '' )'')]"
    by (auto simp: convert_scene_output_to_glb_def Let_def emit_def scene_export_cases glb_name_def
           split: sum.splits if_splits prod.splits)
  then show ?thesis
    by (intro exI[of _ "[Printed (''(exporting 3D scene to ''
                            @ glb_name env outdir scene_name as_pointcloud @ '' )'')]"])
       (simp add: is_printed_def)
qed

lemma export_trace:
  "\<exists>ps. list_all is_printed ps \<and>
     trace (fst (get_3D_model_from_scene env w outdir scene_name scene min_conf_thr as_pointcloud
       mask_sky clean_depth transparent_cams cam_size)) = trace w @ ps"
proof -
  obtain w1 r1 where so: "scene_outputs env w scene min_conf_thr mask_sky clean_depth = (w1, r1)"
    by (cases "scene_outputs env w scene min_conf_thr mask_sky clean_depth")
  from scene_outputs_frame[OF so] have tr: "trace w1 = trace w" by simp
  show ?thesis
  proof (cases r1)
    case (Inl e)
    with so tr show ?thesis
      by (intro exI[of _ "[]"]) (simp add: get_3D_model_from_scene_def)
  next
    case (Inr x)
    show ?thesis
    proof (cases x)
      case None
      with so tr Inr show ?thesis
        by (intro exI[of _ "[]"]) (simp add: get_3D_model_from_scene_def)
    next
      case (Some y)
      obtain b i p m f c where y: "y = (b, i, p, m, f, c)" by (cases y)
      from convert_trace[of env w1 outdir scene_name i p m f c cam_size PyNone as_pointcloud
             transparent_cams]
      show ?thesis
        by (simp add: get_3D_model_from_scene_def so Inr Some y tr)
    qed
  qed
qed

lemma export_not_a_scene:
  assumes "scene \<noteq> PyNone" "\<forall>a. scene \<noteq> PyObj a"
  shows "get_3D_model_from_scene env w outdir scene_name scene min_conf_thr as_pointcloud
       mask_sky clean_depth transparent_cams cam_size = (w, Inl AttributeError)"
  using assms
  by (cases scene)
     (auto simp: get_3D_model_from_scene_def scene_outputs_def call_clean_pointcloud_def
                 call_mask_sky_def)

lemma export_of_float:
  "get_3D_model_from_scene env w outdir scene_name (PyFloat r) min_conf_thr as_pointcloud
       mask_sky clean_depth transparent_cams cam_size = (w, Inl AttributeError)"
  by (rule export_not_a_scene) simp_all

text \<open>
  Claim C1 does not hold of the code. The call at lines 209 to 218 passes the scene where
  \<^verbatim>\<open>get_3D_model_from_scene\<close> expects the scene name, and so the threshold where it
  expects the scene: when the threshold is a float, as the slider gives it, every run of
  \<^verbatim>\<open>get_reconstructed_scene\<close> ends in an error and writes no file.
\<close>

theorem reconstruction_export_misbound:
  "\<exists>e. snd (get_reconstructed_scene env w outdir model device image_size filelist schedule niter
          (PyFloat r) as_pointcloud mask_sky clean_depth transparent_cams cam_size
          scenegraph_type winsize refid) = Inl e
     \<and> files (fst (get_reconstructed_scene env w outdir model device image_size filelist schedule
          niter (PyFloat r) as_pointcloud mask_sky clean_depth transparent_cams cam_size
          scenegraph_type winsize refid)) = files w"
proof (cases "load_images env filelist image_size")
  case (Inl e)
  show ?thesis
    unfolding get_reconstructed_scene_def Let_def Inl sum.case by (simp add: emit_def)
next
  case li: (Inr imgs0)
  define imgs where
    "imgs = (if length imgs0 = 1 then [imgs0 ! 0, (imgs0 ! 0)\<lparr>view_idx := 1\<rparr>] else imgs0)"
  define sg where
    "sg = (if scenegraph_type = ''swin'' then scenegraph_type @ ''-'' @ str_int winsize
           else if scenegraph_type = ''oneref'' then scenegraph_type @ ''-'' @ str_int refid
           else scenegraph_type)"
  show ?thesis
  proof (cases "make_pairs env imgs sg")
    case (Inl e)
    show ?thesis
      unfolding get_reconstructed_scene_def Let_def li sum.case imgs_def[symmetric]
                sg_def[symmetric] Inl
      by (simp add: emit_def)
  next
    case mp: (Inr pairs)
    show ?thesis
    proof (cases "inference env pairs model device batch_size")
      case (Inl e)
      show ?thesis
        unfolding get_reconstructed_scene_def Let_def li sum.case imgs_def[symmetric]
                  sg_def[symmetric] mp Inl
        by (simp add: emit_def)
    next
      case inf: (Inr out)
      show ?thesis
      proof (cases "global_aligner env out device
                      (if 2 < length imgs then PointCloudOptimizer else PairViewer)")
        case (Inl e)
        show ?thesis
          unfolding get_reconstructed_scene_def Let_def li sum.case imgs_def[symmetric]
                    sg_def[symmetric] mp inf Inl
          by (simp add: emit_def)
      next
        case ga: (Inr s)
        show ?thesis
          unfolding get_reconstructed_scene_def Let_def li sum.case imgs_def[symmetric]
                    sg_def[symmetric] mp inf ga
          by (auto simp: emit_def alloc_def call_compute_global_alignment_def export_of_float Let_def
                   split: sum.splits prod.splits)
      qed
    qed
  qed
qed

lemma export_calls:
  assumes "get_3D_model_from_scene env w outdir scene_name scene min_conf_thr as_pointcloud
       mask_sky clean_depth transparent_cams cam_size = (w', r)"
  shows "calls (trace w') = calls (trace w)"
proof -
  from export_trace[of env w outdir scene_name scene min_conf_thr as_pointcloud
       mask_sky clean_depth transparent_cams cam_size] assms
  obtain ps where "list_all is_printed ps" "trace w' = trace w @ ps" by auto
  then show ?thesis by (simp add: calls_def list_all_iff filter_empty_conv)
qed

text \<open>
  Claim C6. In a run whose images load and whose pairing, inference and aligner calls
  succeed, the calls recorded are: with more than two resolved views, the aligner in the
  mode \<^verbatim>\<open>PointCloudOptimizer\<close> and then \<^verbatim>\<open>compute_global_alignment\<close> on the
  new scene with \<^verbatim>\<open>init="mst"\<close>, the caller's \<^verbatim>\<open>niter\<close> and \<^verbatim>\<open>schedule\<close>
  and the learning rate 0.01; otherwise (two resolved views) the aligner in the mode
  \<^verbatim>\<open>PairViewer\<close> and no optimization call.
\<close>

theorem alignment_mode_by_view_count:
  fixes imgs0 :: "view list" and imgs :: "view list" and sg :: string
    and scenegraph_type :: string and winsize refid :: int
  defines "imgs \<equiv> (if length imgs0 = 1 then [imgs0 ! 0, (imgs0 ! 0)\<lparr>view_idx := 1\<rparr>] else imgs0)"
  defines "sg \<equiv> (if scenegraph_type = ''swin'' then scenegraph_type @ ''-'' @ str_int winsize
           else if scenegraph_type = ''oneref'' then scenegraph_type @ ''-'' @ str_int refid
           else scenegraph_type)"
  assumes li: "load_images env filelist image_size = Inr imgs0"
      and mp: "make_pairs env imgs sg = Inr pairs"
      and inf: "inference env pairs model device batch_size = Inr out"
      and ga: "global_aligner env out device
                 (if 2 < length imgs then PointCloudOptimizer else PairViewer) = Inr s"
  shows "calls (trace (fst (get_reconstructed_scene env w outdir model device image_size filelist
            schedule niter min_conf_thr as_pointcloud mask_sky clean_depth transparent_cams
            cam_size scenegraph_type winsize refid)))
         = calls (trace w) @ [LoadImages filelist image_size, MakePairs sg, Inference batch_size]
           @ (if 2 < length imgs
              then [GlobalAligner PointCloudOptimizer,
                    ComputeGlobalAlignment (nxt w) ''mst'' niter schedule 0.01]
              else [GlobalAligner PairViewer])"
  unfolding get_reconstructed_scene_def Let_def li sum.case imgs_def[symmetric]
            sg_def[symmetric] mp inf ga
  by (auto simp: emit_def alloc_def call_compute_global_alignment_def Let_def calls_def
                 is_printed_def
           dest!: export_calls[unfolded calls_def]
           split: sum.splits prod.splits)

lemma ex_load: "load_images ex_env fl sz = Inr (map (\<lambda>i. ex_view (int i)) [0..<length fl])"
  by (simp add: ex_env_def)

lemma ex_pairs: "make_pairs ex_env vs g = Inr (List.product vs vs)"
  by (simp add: ex_env_def)

lemma ex_inference: "inference ex_env ps m d b = Inr ()"
  by (simp add: ex_env_def)

lemma ex_aligner: "global_aligner ex_env out d m = Inr ex_scene"
  by (simp add: ex_env_def)

text \<open>Three files give the optimizer and its call, two files give the pair viewer alone.\<close>

theorem alignment_mode_by_view_count_witness:
  "calls (trace (fst (get_reconstructed_scene ex_env ex_world ''out'' (Model ''m'') ''cuda'' 512
       [''a.png'', ''b.png'', ''c.png''] ''linear'' 300
       (PyFloat 3) (PyBool False) (PyBool False) (PyBool True) (PyBool False) (PyFloat 0.05)
       ''complete'' 1 0)))
     = [LoadImages [''a.png'', ''b.png'', ''c.png''] 512, MakePairs ''complete'', Inference 1,
        GlobalAligner PointCloudOptimizer, ComputeGlobalAlignment 1 ''mst'' 300 ''linear'' 0.01]
   \<and> calls (trace (fst (get_reconstructed_scene ex_env ex_world ''out'' (Model ''m'') ''cuda'' 512
       [''a.png'', ''b.png''] ''cosine'' 300
       (PyFloat 3) (PyBool False) (PyBool False) (PyBool True) (PyBool False) (PyFloat 0.05)
       ''complete'' 1 0)))
     = [LoadImages [''a.png'', ''b.png''] 512, MakePairs ''complete'', Inference 1,
        GlobalAligner PairViewer]"
proof -
  have w: "calls (trace ex_world) = []" "nxt ex_world = 1"
    by (simp_all add: ex_world_def calls_def)
  note run = alignment_mode_by_view_count[OF ex_load ex_pairs ex_inference ex_aligner]
  show ?thesis
    by (simp add: run w batch_size_def)
qed

text \<open>
  A run on three files with threshold 3.0 and the other controls at their defaults ends
  in \<^verbatim>\<open>AttributeError\<close> and leaves no file.
\<close>

theorem reconstruction_export_misbound_example:
  "snd (get_reconstructed_scene ex_env ex_world ''out'' (Model ''m'') ''cuda'' 512
     [''a.png'', ''b.png'', ''c.png''] ''linear'' 300
     (PyFloat 3) (PyBool False) (PyBool False) (PyBool True) (PyBool False) (PyFloat 0.05)
     ''complete'' 1 0) = Inl AttributeError
   \<and> files (fst (get_reconstructed_scene ex_env ex_world ''out'' (Model ''m'') ''cuda'' 512
     [''a.png'', ''b.png'', ''c.png''] ''linear'' 300
     (PyFloat 3) (PyBool False) (PyBool False) (PyBool True) (PyBool False) (PyFloat 0.05)
     ''complete'' 1 0)) = Map.empty"
  unfolding get_reconstructed_scene_def Let_def ex_load sum.case ex_pairs ex_inference ex_aligner
  by (simp add: emit_def alloc_def call_compute_global_alignment_def Let_def export_of_float)
     (simp add: ex_env_def ex_world_def)

section \<open>The diagnostic images: the theorems\<close>

lemma py_max_eq: "xs \<noteq> [] \<Longrightarrow> py_max xs = Inr (Max (set xs))"
proof (cases xs)
  case Nil
  then show "xs \<noteq> [] \<Longrightarrow> ?thesis" by simp
next
  case (Cons a list)
  then show ?thesis using Max.set_eq_fold[of a list] by (simp add: py_max_def)
qed

lemma array_maxes_ok:
  "\<forall>d \<in> set ds. cells d \<noteq> [] \<Longrightarrow>
   array_maxes ds = Inr (map (\<lambda>d. Max (set (cells d))) ds)"
  by (induction ds) (simp_all add: py_max_eq)

lemma max_of_maxes:
  assumes "ds \<noteq> []" and "\<forall>d \<in> set ds. cells d \<noteq> []"
  shows "Max ((\<lambda>d. Max (set (cells d))) ` set ds) = global_max ds"
proof -
  let ?M = "(\<lambda>d. Max (set (cells d))) ` set ds"
  have fin: "finite ?M" and ne: "?M \<noteq> {}" using assms by auto
  have "Max (set (concat (map cells ds))) = Max ?M"
  proof (rule Max_eqI)
    show "finite (set (concat (map cells ds)))" by simp
  next
    fix y assume "y \<in> set (concat (map cells ds))"
    then obtain d where d: "d \<in> set ds" "y \<in> set (cells d)" by auto
    then have "y \<le> Max (set (cells d))" by simp
    also have "\<dots> \<le> Max ?M" using d fin by (intro Max_ge) auto
    finally show "y \<le> Max ?M" .
  next
    from Max_in[OF fin ne] obtain d where d: "d \<in> set ds" "Max ?M = Max (set (cells d))"
      by auto
    with assms have "Max (set (cells d)) \<in> set (cells d)" by (intro Max_in) auto
    with d show "Max ?M \<in> set (concat (map cells ds))" by auto
  qed
  then show ?thesis by (simp add: global_max_def)
qed

lemma gallery_loop_result:
  "gallery_loop env rgbimg depths confs is acc = Inr imgs \<Longrightarrow>
   imgs = acc @ concat (map (\<lambda>i. [rgbimg ! i, rgb env (Gray (depths ! i)), rgb env (Rgba (confs ! i))]) is)"
proof (induction "is" arbitrary: acc)
  case Nil
  then show ?case by simp
next
  case (Cons a "is")
  from Cons.prems
  have "gallery_loop env rgbimg depths confs is
          (acc @ [rgbimg ! a, rgb env (Gray (depths ! a)), rgb env (Rgba (confs ! a))]) = Inr imgs"
    by (auto simp: py_get_def split: sum.splits if_splits)
  from Cons.IH[OF this] show ?case by simp
qed

lemma triples_nth:
  "i < n \<Longrightarrow>
   concat (map (\<lambda>i. [f i, g i, h i]) [0..<n]) ! (3 * i) = f i
   \<and> concat (map (\<lambda>i. [f i, g i, h i]) [0..<n]) ! (3 * i + 1) = g i
   \<and> concat (map (\<lambda>i. [f i, g i, h i]) [0..<n]) ! (3 * i + 2) = h i"
proof (induction n)
  case 0
  then show ?case by simp
next
  case (Suc n)
  have len: "length (concat (map (\<lambda>i. [f i, g i, h i]) [0..<n])) = 3 * n"
    by (induction n) simp_all
  show ?case
  proof (cases "i < n")
    case True
    with Suc.IH show ?thesis by (simp add: nth_append len)
  next
    case False
    with Suc.prems have "i = n" by simp
    then show ?thesis by (simp add: nth_append len)
  qed
qed

text \<open>
  Claim C3. For every scene with at least one view (and no depth map without cells),
  lines 227 and 228 divide every depth map by one number, the maximum over all cells of
  all depth maps, and the depth image of view \<open>i\<close> in the gallery, at position
  \<open>3 i + 1\<close>, is made from the depth map of view \<open>i\<close> divided by that number.
\<close>

theorem depth_normalized_by_global_max:
  assumes views: "scene_depthmaps s \<noteq> []"
      and cells: "\<forall>d \<in> set (scene_depthmaps s). cells d \<noteq> []"
  shows "normalized_depths s
           = Inr (map (\<lambda>d. array_div d (global_max (scene_depthmaps s))) (scene_depthmaps s))
         \<and> (\<forall>imgs i. diagnostic_imgs env s = Inr imgs \<and> i < length (scene_imgs s) \<longrightarrow>
               imgs ! (3 * i + 1)
                 = rgb env (Gray (array_div (scene_depthmaps s ! i)
                                    (global_max (scene_depthmaps s)))))"
proof -
  have nd: "normalized_depths s
           = Inr (map (\<lambda>d. array_div d (global_max (scene_depthmaps s))) (scene_depthmaps s))"
    using views
    by (simp add: normalized_depths_def Let_def array_maxes_ok[OF cells] py_max_eq
                  max_of_maxes[OF views cells])
  have "imgs ! (3 * i + 1)
          = rgb env (Gray (array_div (scene_depthmaps s ! i) (global_max (scene_depthmaps s))))"
    if run: "diagnostic_imgs env s = Inr imgs" and i: "i < length (scene_imgs s)" for imgs i
  proof -
    from run obtain confs where
      loop: "gallery_loop env (scene_imgs s)
               (map (\<lambda>d. array_div d (global_max (scene_depthmaps s))) (scene_depthmaps s))
               confs [0..<length (scene_imgs s)] [] = Inr imgs"
      by (auto simp: diagnostic_imgs_def nd Let_def split: sum.splits)
    have inrange: "i < length (scene_depthmaps s)"
    proof (rule ccontr)
      assume "\<not> i < length (scene_depthmaps s)"
      then have "py_get (map (\<lambda>d. array_div d (global_max (scene_depthmaps s)))
                    (scene_depthmaps s)) i = Inl IndexError"
        by (simp add: py_get_def)
      moreover have "\<And>acc. gallery_loop env r d c is acc = Inr imgs \<Longrightarrow> j \<in> set is
                       \<Longrightarrow> \<exists>x. py_get d j = Inr x" for r d c "is" j
        by (induction "is" arbitrary: acc) (auto split: sum.splits)
      ultimately show False using loop i by fastforce
    qed
    let ?D = "map (\<lambda>d. array_div d (global_max (scene_depthmaps s))) (scene_depthmaps s)"
    from gallery_loop_result[OF loop]
    have imgs: "imgs = concat (map (\<lambda>i. [scene_imgs s ! i, rgb env (Gray (?D ! i)),
                                          rgb env (Rgba (confs ! i))])
                          [0..<length (scene_imgs s)])"
      by simp
    from triples_nth[OF i, of "\<lambda>i. scene_imgs s ! i" "\<lambda>i. rgb env (Gray (?D ! i))"
           "\<lambda>i. rgb env (Rgba (confs ! i))"]
    have "imgs ! (3 * i + 1) = rgb env (Gray (?D ! i))"
      unfolding imgs by blast
    with inrange show ?thesis by simp
  qed
  with nd show ?thesis by blast
qed

text \<open>
  The two depth maps of the example scene have maxima 2 and 4: both are divided by 4.
\<close>

theorem depth_normalized_by_global_max_witness:
  "scene_depthmaps ex_scene = [NdArray (1, 2) [1, 2], NdArray (1, 2) [4, 3]]
   \<and> py_max (cells (NdArray (1, 2) [1, 2 :: real])) = Inr 2
   \<and> py_max (cells (NdArray (1, 2) [4, 3 :: real])) = Inr 4
   \<and> global_max (scene_depthmaps ex_scene) = 4
   \<and> normalized_depths ex_scene
       = Inr [NdArray (1, 2) [1 / 4, 2 / 4], NdArray (1, 2) [4 / 4, 3 / 4]]"
proof -
  have d: "scene_depthmaps ex_scene = [NdArray (1, 2) [1, 2], NdArray (1, 2) [4, 3]]"
    by (simp add: ex_scene_def)
  have g: "global_max (scene_depthmaps ex_scene) = 4"
    by (simp add: d global_max_def)
  have v: "scene_depthmaps ex_scene \<noteq> []" by (simp add: d)
  have c: "\<forall>d \<in> set (scene_depthmaps ex_scene). cells d \<noteq> []" by (simp add: d)
  from depth_normalized_by_global_max[OF v c, of ex_env]
  have "normalized_depths ex_scene
       = Inr [NdArray (1, 2) [1 / 4, 2 / 4], NdArray (1, 2) [4 / 4, 3 / 4]]"
    by (simp add: g) (simp add: d array_div_def array_map_def)
  with d g show ?thesis by (simp add: py_max_def)
qed

section \<open>The export called directly\<close>

text \<open>
  An export without a scene (the scene is \<^verbatim>\<open>None\<close>) returns \<^verbatim>\<open>None\<close> and
  changes nothing.
\<close>

theorem export_without_scene:
  "get_3D_model_from_scene env w outdir scene_name PyNone min_conf_thr as_pointcloud mask_sky
      clean_depth transparent_cams cam_size = (w, Inr PyNone)"
  by (simp add: get_3D_model_from_scene_def scene_outputs_def)

text \<open>
  An export of a scene object that returns, as \<^verbatim>\<open>__main__\<close> calls it at lines 557 and
  558, returns the path \<^verbatim>\<open>{scene_name}_pointcloud.glb\<close> or \<^verbatim>\<open>{scene_name}_mesh.glb\<close>
  under \<^verbatim>\<open>outdir\<close> and has written that one file: every other path holds what it
  held before.
\<close>

theorem export_writes_named_file:
  assumes run: "get_3D_model_from_scene env w outdir scene_name (PyObj a) min_conf_thr
                  as_pointcloud mask_sky clean_depth transparent_cams cam_size = (w', Inr v)"
  shows "v = PyStr (path_join outdir (py_str env scene_name @ ''_''
                @ (if truthy as_pointcloud then ''pointcloud'' else ''mesh'') @ ''.glb''))
       \<and> (\<exists>sc. files w' = (files w)(path_join outdir (py_str env scene_name @ ''_''
                @ (if truthy as_pointcloud then ''pointcloud'' else ''mesh'') @ ''.glb'')
                  \<mapsto> Glb sc))"
proof (cases "torch_tensor min_conf_thr")
  case (Inl e)
  from get_3D_bad_threshold[OF Inl, of env w outdir scene_name a as_pointcloud mask_sky
         clean_depth transparent_cams cam_size] run
  show ?thesis by simp
next
  case (Inr t)
  from get_3D_unfold[OF Inr, of w env outdir scene_name a as_pointcloud mask_sky clean_depth
         transparent_cams cam_size] run
  obtain w1 where f: "files w1 = files w"
    and conv: "convert_scene_output_to_glb env w1 outdir scene_name
       (scene_imgs (working_scene env (objs w a) mask_sky clean_depth))
       (scene_pts3d (working_scene env (objs w a) mask_sky clean_depth))
       (export_masks env (objs w a) t mask_sky clean_depth)
       (scene_focals (working_scene env (objs w a) mask_sky clean_depth))
       (scene_im_poses (working_scene env (objs w a) mask_sky clean_depth))
       cam_size PyNone as_pointcloud transparent_cams = (w', Inr v)"
    by auto
  from convert_success[OF conv] obtain g tr where
        "v = PyStr (glb_name env outdir scene_name as_pointcloud)"
    and "files w' = (files w1)(glb_name env outdir scene_name as_pointcloud \<mapsto>
                          Glb \<lparr>geoms = [g], transform = tr\<rparr>)"
    by blast
  then show ?thesis
    unfolding f glb_name_def
    by (intro conjI exI[of _ "\<lparr>geoms = [g], transform = tr\<rparr>"]) simp_all
qed

text \<open>The example scene exported as a point cloud under the name \<^verbatim>\<open>box\<close>.\<close>

theorem export_writes_named_file_witness:
  "get_3D_model_from_scene ex_env ex_world ''out'' (PyStr ''box'') (PyObj 0) (PyFloat 3)
       (PyBool True) (PyBool False) (PyBool False) (PyBool False) (PyFloat 0.05)
     = (fst (get_3D_model_from_scene ex_env ex_world ''out'' (PyStr ''box'') (PyObj 0) (PyFloat 3)
              (PyBool True) (PyBool False) (PyBool False) (PyBool False) (PyFloat 0.05)),
        Inr (PyStr ''out/box_pointcloud.glb''))
   \<and> (\<exists>sc. files (fst (get_3D_model_from_scene ex_env ex_world ''out'' (PyStr ''box'') (PyObj 0)
              (PyFloat 3) (PyBool True) (PyBool False) (PyBool False) (PyBool False)
              (PyFloat 0.05)))
          = (files ex_world)(''out/box_pointcloud.glb'' \<mapsto> Glb sc))"
proof -
  have run: "get_3D_model_from_scene ex_env ex_world ''out'' (PyStr ''box'') (PyObj 0) (PyFloat 3)
       (PyBool True) (PyBool False) (PyBool False) (PyBool False) (PyFloat 0.05)
     = (fst (get_3D_model_from_scene ex_env ex_world ''out'' (PyStr ''box'') (PyObj 0) (PyFloat 3)
              (PyBool True) (PyBool False) (PyBool False) (PyBool False) (PyFloat 0.05)),
        Inr (PyStr ''out/box_pointcloud.glb''))"
    using ex_run by (simp add: prod_eq_iff)
  have n: "path_join ''out'' (py_str ex_env (PyStr ''box'') @ ''_''
             @ (if truthy (PyBool True) then ''pointcloud'' else ''mesh'') @ ''.glb'')
           = ''out/box_pointcloud.glb''"
    using ex_name by (simp add: glb_name_def)
  from export_writes_named_file[OF run] run show ?thesis
    unfolding n by blast
qed

text \<open>
  An export as a mesh whose masks are all empty: for a scene with at least one view, whose
  per-view sequences have one length, whose images, point maps and masks have the same
  shapes and whose first pose gives an invertible matrix, and for a path that can be
  written, the export returns the path and the file holds the mesh of the per-view meshes.
\<close>

theorem empty_masks_mesh_export:
  fixes env :: "'o env" and w :: world and a :: nat and mask_sky clean_depth :: pyval
    and t :: real and s :: scene and ms :: "mask list"
  defines "s \<equiv> working_scene env (objs w a) mask_sky clean_depth"
  defines "ms \<equiv> export_masks env (objs w a) t mask_sky clean_depth"
  assumes thr: "torch_tensor min_conf_thr = Inr t"
      and me: "\<not> truthy as_pointcloud"
      and views: "scene_imgs s \<noteq> []"
      and shapes_pts: "list_all2 (\<lambda>p m. shape p = shape m) (scene_pts3d s) ms"
      and shapes_img: "list_all2 (\<lambda>p m. shape p = shape m) (scene_imgs s) ms"
      and len_poses: "length (scene_im_poses s) = length (scene_imgs s)"
      and len_focals: "length (scene_focals s) = length (scene_imgs s)"
      and pose: "det4 (mat_mul (mat_mul (hd (scene_im_poses s)) (OPENGL env)) rot180) \<noteq> 0"
      and wr: "writable w (glb_name env outdir scene_name as_pointcloud)"
      and empty: "\<forall>m \<in> set ms. \<forall>b \<in> set (cells m). \<not> b"
  shows "snd (get_3D_model_from_scene env w outdir scene_name (PyObj a) min_conf_thr
                as_pointcloud mask_sky clean_depth transparent_cams cam_size)
           = Inr (PyStr (glb_name env outdir scene_name as_pointcloud))
         \<and> masked_count ms = 0
         \<and> (case files (fst (get_3D_model_from_scene env w outdir scene_name (PyObj a)
                   min_conf_thr as_pointcloud mask_sky clean_depth transparent_cams cam_size))
                 (glb_name env outdir scene_name as_pointcloud) of
              Some (Glb sc) \<Rightarrow>
                geoms sc =
                 [Trimesh (cat_meshes env
                    (map (\<lambda>i. pts3d_to_trimesh env (scene_imgs s ! i) (scene_pts3d s ! i) (ms ! i))
                       [0..<length (scene_imgs s)]))]
            | _ \<Rightarrow> False)"
proof -
  from get_3D_unfold[OF thr, of w env outdir scene_name a as_pointcloud mask_sky clean_depth
         transparent_cams cam_size]
  obtain w1 where f: "files w1 = files w" and w1: "writable w1 = writable w"
    and run: "get_3D_model_from_scene env w outdir scene_name (PyObj a) min_conf_thr as_pointcloud
       mask_sky clean_depth transparent_cams cam_size =
     convert_scene_output_to_glb env w1 outdir scene_name
       (scene_imgs s) (scene_pts3d s) ms (scene_focals s) (scene_im_poses s)
       cam_size PyNone as_pointcloud transparent_cams"
    unfolding s_def ms_def by blast
  from shapes_pts have lp: "length (scene_pts3d s) = length ms" by (rule list_all2_lengthD)
  from shapes_img have li: "length (scene_imgs s) = length ms" by (rule list_all2_lengthD)
  define g where "g = Trimesh (cat_meshes env
                    (map (\<lambda>i. pts3d_to_trimesh env (scene_imgs s ! i) (scene_pts3d s ! i) (ms ! i))
                       [0..<length (scene_imgs s)]))"
  have geo: "(if truthy as_pointcloud then pointcloud_geometry (scene_imgs s) (scene_pts3d s) ms
             else mesh_geometry env (scene_imgs s) (scene_pts3d s) ms) = Inr g"
    using me by (simp only: g_def if_False mesh_geometry_total[OF shapes_pts shapes_img])
  have np: "\<not> no_points g" by (simp add: g_def no_points_def)
  from views len_poses obtain c0 rest where cams: "scene_im_poses s = c0 # rest"
    by (cases "scene_im_poses s") auto
  with pose have d: "det4 (mat_mul (mat_mul c0 (OPENGL env)) rot180) \<noteq> 0" by simp
  define tr where "tr = scale4 (1 / det4 (mat_mul (mat_mul c0 (OPENGL env)) rot180))
                               (adj4 (mat_mul (mat_mul c0 (OPENGL env)) rot180))"
  from d have inv: "linalg_inv (mat_mul (mat_mul c0 (OPENGL env)) rot180) = Inr tr"
    by (simp add: linalg_inv_def tr_def)
  from wr w1 have wr1: "writable w1 (glb_name env outdir scene_name as_pointcloud)" by simp
  have l1: "length (scene_pts3d s) = length ms" by (rule lp)
  have l2: "length ms \<le> length (scene_imgs s)" using li by simp
  have l3: "length (scene_imgs s) \<le> length (scene_im_poses s)" using len_poses by simp
  have l4: "length (scene_im_poses s) = length (scene_focals s)" using len_poses len_focals by simp
  note conv = convert_total[OF l1 l2 l3 l4 geo cams inv wr1 np, of cam_size PyNone transparent_cams]
  have cnt: "masked_count ms = 0"
    using empty by (auto simp: masked_count_def filter_empty_conv)
  show ?thesis
    unfolding run conv g_def[symmetric] by (simp add: cnt)
qed

lemma ex_name_mesh: "glb_name ex_env ''out'' (PyStr ''box'') (PyBool False) = ''out/box_mesh.glb''"
  by (simp add: glb_name_def path_join_def py_str_def truthy_def)

text \<open>
  On the example scene, threshold 10 is above every confidence: the mesh written has the
  vertices of the two views and no faces.
\<close>

theorem empty_masks_mesh_export_witness:
  "torch_tensor (PyFloat 10) = Inr 10
   \<and> export_masks ex_env (objs ex_world 0) 10 (PyBool False) (PyBool True)
       = [NdArray (1, 2) [False, False], NdArray (1, 2) [False, False]]
   \<and> snd (get_3D_model_from_scene ex_env ex_world ''out'' (PyStr ''box'') (PyObj 0)
         (PyFloat 10) (PyBool False) (PyBool False) (PyBool True) (PyBool False) (PyFloat 0.05))
       = Inr (PyStr ''out/box_mesh.glb'')
   \<and> (case files (fst (get_3D_model_from_scene ex_env ex_world ''out'' (PyStr ''box'') (PyObj 0)
         (PyFloat 10) (PyBool False) (PyBool False) (PyBool True) (PyBool False) (PyFloat 0.05)))
         ''out/box_mesh.glb'' of
        Some (Glb sc) \<Rightarrow>
          geoms sc = [Trimesh \<lparr>vertices = [(0, 0, 1), (1, 0, 2), (0, 0, 1), (1, 0, 2)],
                               faces = [], face_colors = []\<rparr>]
      | _ \<Rightarrow> False)"
proof -
  have t: "torch_tensor (PyFloat 10) = Inr 10" by (simp add: torch_tensor_def)
  have o: "objs ex_world 0 = ex_scene" by (simp add: ex_world_def)
  have m: "export_masks ex_env ex_scene 10 (PyBool False) (PyBool True)
       = [NdArray (1, 2) [False, False], NdArray (1, 2) [False, False]]"
    by (simp add: ex_masks)
  have views: "scene_imgs (working_scene ex_env (objs ex_world 0) (PyBool False) (PyBool True)) \<noteq> []"
    by (simp add: o ex_working ex_scene_def)
  have sp: "list_all2 (\<lambda>p m. shape p = shape m)
              (scene_pts3d (working_scene ex_env (objs ex_world 0) (PyBool False) (PyBool True)))
              (export_masks ex_env (objs ex_world 0) 10 (PyBool False) (PyBool True))"
    by (simp add: o ex_working m) (simp add: ex_scene_def ex_pts_def)
  have si: "list_all2 (\<lambda>p m. shape p = shape m)
              (scene_imgs (working_scene ex_env (objs ex_world 0) (PyBool False) (PyBool True)))
              (export_masks ex_env (objs ex_world 0) 10 (PyBool False) (PyBool True))"
    by (simp add: o ex_working m) (simp add: ex_scene_def ex_img_def)
  have lp: "length (scene_im_poses (working_scene ex_env (objs ex_world 0) (PyBool False) (PyBool True)))
          = length (scene_imgs (working_scene ex_env (objs ex_world 0) (PyBool False) (PyBool True)))"
    by (simp add: o ex_working ex_scene_def)
  have lf: "length (scene_focals (working_scene ex_env (objs ex_world 0) (PyBool False) (PyBool True)))
          = length (scene_imgs (working_scene ex_env (objs ex_world 0) (PyBool False) (PyBool True)))"
    by (simp add: o ex_working ex_scene_def)
  have d: "det4 (mat_mul (mat_mul
              (hd (scene_im_poses (working_scene ex_env (objs ex_world 0) (PyBool False) (PyBool True))))
              (OPENGL ex_env)) rot180) \<noteq> 0"
    using ex_inv by (auto simp: o ex_working ex_scene_def linalg_inv_def split: if_splits)
  have wr: "writable ex_world p" for p by (simp add: ex_world_def)
  have e: "\<forall>m \<in> set (export_masks ex_env (objs ex_world 0) 10 (PyBool False) (PyBool True)).
             \<forall>b \<in> set (cells m). \<not> b"
    by (simp add: o m)
  have meshes: "cat_meshes ex_env
          [pts3d_to_trimesh ex_env ex_img ex_pts (NdArray (1, 2) [False, False]),
           pts3d_to_trimesh ex_env ex_img ex_pts (NdArray (1, 2) [False, False])]
        = \<lparr>vertices = [(0, 0, 1), (1, 0, 2), (0, 0, 1), (1, 0, 2)], faces = [], face_colors = []\<rparr>"
    by (simp add: ex_env_def ex_pts_def)
  have idx: "map (\<lambda>i. pts3d_to_trimesh ex_env ([ex_img, ex_img] ! i) ([ex_pts, ex_pts] ! i)
                  ([NdArray (1, 2) [False, False], NdArray (1, 2) [False, False]] ! i))
               [0..<length [ex_img, ex_img]]
           = [pts3d_to_trimesh ex_env ex_img ex_pts (NdArray (1, 2) [False, False]),
              pts3d_to_trimesh ex_env ex_img ex_pts (NdArray (1, 2) [False, False])]"
    by (simp add: upt_conv_Cons)
  have imgs: "scene_imgs ex_scene = [ex_img, ex_img]" and pts: "scene_pts3d ex_scene = [ex_pts, ex_pts]"
    by (simp_all add: ex_scene_def)
  have fa: "\<not> truthy (PyBool False)" by (simp add: truthy_def)
  note me = empty_masks_mesh_export[OF t fa views sp si lp lf d wr e, of "''out''" "PyStr ''box''"
            "PyBool False" "PyFloat 0.05"]
  from me have me': "snd (get_3D_model_from_scene ex_env ex_world ''out'' (PyStr ''box'') (PyObj 0)
         (PyFloat 10) (PyBool False) (PyBool False) (PyBool True) (PyBool False) (PyFloat 0.05))
       = Inr (PyStr ''out/box_mesh.glb'')
   \<and> (case files (fst (get_3D_model_from_scene ex_env ex_world ''out'' (PyStr ''box'') (PyObj 0)
         (PyFloat 10) (PyBool False) (PyBool False) (PyBool True) (PyBool False) (PyFloat 0.05)))
         ''out/box_mesh.glb'' of
        Some (Glb sc) \<Rightarrow>
          geoms sc = [Trimesh \<lparr>vertices = [(0, 0, 1), (1, 0, 2), (0, 0, 1), (1, 0, 2)],
                               faces = [], face_colors = []\<rparr>]
      | _ \<Rightarrow> False)"
    by ((simp only: ex_name_mesh o ex_working m imgs pts idx meshes), simp?)
  from t m me' show ?thesis by ((simp only: o), simp?)
qed

end
